theory Spec2Isabelle
  imports Main
begin

section \<open>Shared data model\<close>

text \<open>
  The Prisma enum \<open>Role\<close> and the HTTP exceptions the services throw. Each exception
  carries its message. \<open>JsError\<close> is a plain JavaScript \<open>Error\<close> (the project
  service throws those), \<open>StoreError\<close> a rejection coming from the data store or
  from the identity provider.
\<close>

datatype Role = FOUNDER | TESTER | MEMBER

datatype error =
    ForbiddenException string
  | NotFoundException string
  | BadRequestException string
  | ConflictException string
  | UnauthorizedException string
  | JsError string
  | StoreError string

text \<open>\<open>TenantContext\<close> (common/interfaces/tenant-context.interface.ts).\<close>

record TenantContext =
  userId :: string
  supabaseId :: string
  email :: string
  role :: Role
  tenantId :: string

section \<open>MemberWriteBlockGuard\<close>

text \<open>
  The guard reads \<open>request.user\<close> (absent on an unauthenticated request) and
  \<open>request.method\<close>.
\<close>

record AuthenticatedUser =
  au_id :: string
  au_supabaseId :: string
  au_email :: string
  au_role :: Role
  au_accountId :: string

record request =
  req_user :: "AuthenticatedUser option"
  req_method :: string

definition writeMethods :: "string list" where
  "writeMethods = [''POST'', ''PUT'', ''PATCH'', ''DELETE'']"

definition canActivate :: "request \<Rightarrow> error + bool" where
  "canActivate req =
     (if map_option au_role (req_user req) \<noteq> Some MEMBER then Inr True
      else if req_method req \<in> set writeMethods then
        Inl (ForbiddenException ''MEMBER role is not authorized to perform write operations'')
      else Inr True)"

section \<open>The data store\<close>

text \<open>
  The rows of the relational store, with the columns that the operations below read and
  write.
  Timestamps are milliseconds since the epoch; a nullable column is an option. The Prisma
  schema is not part of the sources at hand, so the columns are those the code names.
\<close>

datatype EvaluationStatus = DRAFT | ACTIVE | COMPLETED

datatype ParticipantStatus = PENDING | ACCEPTED | REJECTED

datatype InvitationStatus = PENDING | ACCEPTED | EXPIRED | REVOKED

datatype answer_value = BoolAnswer bool | TextAnswer string | NumberAnswer int

record account =
  acc_id :: string
  acc_name :: string

record user =
  u_id :: string
  u_supabaseId :: string
  u_email :: string
  u_role :: Role
  u_accountId :: string

text \<open>The two columns every tenant-scoped model has; \<open>BaseService\<close> relies on them only.\<close>

record base_row =
  br_id :: string
  br_accountId :: string

record project = base_row +
  p_name :: string
  p_description :: "string option"
  p_ownerId :: string
  p_deletedAt :: "int option"
  p_createdAt :: int

record projectMember =
  pm_projectId :: string
  pm_userId :: string

record evaluation =
  ev_id :: string
  ev_title :: string
  ev_status :: EvaluationStatus
  ev_projectId :: string
  ev_createdById :: string
  ev_accountId :: string

record evaluationQuestion =
  q_id :: string
  q_text :: string
  q_evaluationId :: string

record evaluationParticipant =
  ep_evaluationId :: string
  ep_userId :: string
  ep_status :: ParticipantStatus
  ep_joinedAt :: int
  ep_completedAt :: "int option"
  ep_rejectedAt :: "int option"

record evaluationResponse =
  r_questionId :: string
  r_userId :: string
  r_answer :: answer_value
  r_submittedAt :: int

record invitation =
  inv_id :: string
  inv_email :: string
  inv_token :: string
  inv_role :: Role
  inv_accountId :: string
  inv_invitedById :: string
  inv_status :: InvitationStatus
  inv_expiresAt :: int
  inv_acceptedAt :: "int option"

record db =
  users :: "user list"
  accounts :: "account list"
  projects :: "project list"
  projectMembers :: "projectMember list"
  evaluations :: "evaluation list"
  evaluationQuestions :: "evaluationQuestion list"
  evaluationParticipants :: "evaluationParticipant list"
  evaluationResponses :: "evaluationResponse list"
  invitations :: "invitation list"

text \<open>
  A service call returns its value or the exception it throws, together with the store
  as the call leaves it: a write made before a throw stays, unless it was made inside
  \<open>$transaction\<close>.
\<close>

type_synonym 'a outcome = "(error + 'a) \<times> db"

text \<open>
  \<open>model.update({where: <unique key>, data})\<close>: rewrites the rows with that key and
  rejects when there is none.
\<close>

definition update_where :: "('a \<Rightarrow> bool) \<Rightarrow> ('a \<Rightarrow> 'a) \<Rightarrow> 'a list \<Rightarrow> error + 'a list" where
  "update_where P f rows =
     (if list_ex P rows then Inr (map (\<lambda>r. if P r then f r else r) rows)
      else Inl (StoreError ''Record to update not found''))"

text \<open>
  \<open>prisma.$transaction(body)\<close>: when the body throws, the store is back to what it
  was before the body began.
\<close>

definition transaction :: "(db \<Rightarrow> 'a outcome) \<Rightarrow> db \<Rightarrow> 'a outcome" where
  "transaction body s =
     (case body s of
        (Inl e, s') \<Rightarrow> (Inl e, s)
      | (Inr v, s') \<Rightarrow> (Inr v, s'))"

section \<open>EvaluationService\<close>

text \<open>
  Modelled from the spec: the column defaults of \<open>EvaluationParticipant\<close> live in the
  Prisma schema, which is missing; \<open>joinEvaluation\<close> supplies the two key columns only.
  The spec gives the new row status Pending; \<open>joinedAt\<close> is the time of the insert and
  the other two timestamps are null.
\<close>

definition new_participant :: "int \<Rightarrow> string \<Rightarrow> string \<Rightarrow> evaluationParticipant" where
  "new_participant now evaluationId uid =
     \<lparr>ep_evaluationId = evaluationId, ep_userId = uid, ep_status = ParticipantStatus.PENDING,
      ep_joinedAt = now, ep_completedAt = None, ep_rejectedAt = None\<rparr>"

definition joinEvaluation :: "int \<Rightarrow> TenantContext \<Rightarrow> string \<Rightarrow> db \<Rightarrow> unit outcome" where
  "joinEvaluation now context evaluationId s =
     (if role context \<noteq> TESTER then
        (Inl (ForbiddenException ''Only TESTERs can join evaluations''), s)
      else
        case find (\<lambda>e. ev_id e = evaluationId \<and> ev_status e = ACTIVE) (evaluations s) of
          None \<Rightarrow> (Inl (NotFoundException ''Active evaluation not found''), s)
        | Some evaluation \<Rightarrow>
            (case find (\<lambda>p. ep_evaluationId p = evaluationId \<and> ep_userId p = userId context)
                       (evaluationParticipants s) of
               Some existing \<Rightarrow> (Inl (BadRequestException ''Already joined this evaluation''), s)
             | None \<Rightarrow>
                 (Inr (),
                  s\<lparr>evaluationParticipants :=
                      evaluationParticipants s @ [new_participant now evaluationId (userId context)]\<rparr>)))"

record SubmitResponseDto =
  sr_questionId :: string
  sr_answer :: answer_value

text \<open>The loop over \<open>data.responses\<close>: the first id outside \<open>questionIds\<close> throws.\<close>

fun validateQuestionIds :: "string list \<Rightarrow> SubmitResponseDto list \<Rightarrow> error option" where
  "validateQuestionIds questionIds [] = None"
| "validateQuestionIds questionIds (response # rest) =
     (if sr_questionId response \<notin> set questionIds then
        Some (BadRequestException
               (''Question '' @ sr_questionId response @ '' does not belong to this evaluation''))
      else validateQuestionIds questionIds rest)"

text \<open>
  What \<open>submitFeedback\<close> takes from outside: the clock, and whether the store rejects
  the two writes of its transaction, \<open>evaluationResponse.createMany\<close> and
  \<open>evaluationParticipant.update\<close> (\<open>None\<close>: the write goes through).
\<close>

record feedback_env =
  fe_now :: int
  fe_createMany :: "error option"
  fe_participantUpdate :: "error option"

text \<open>
  The body of the transaction of \<open>submitFeedback\<close>: \<open>createMany\<close>, then the update of
  the participation by its composite key. \<open>submittedAt\<close> is the insert time (a schema
  default). When the update throws, the body leaves the store with the responses
  inserted; it is \<open>$transaction\<close> that takes them back.
\<close>

definition submitFeedback_tx ::
  "feedback_env \<Rightarrow> TenantContext \<Rightarrow> string \<Rightarrow> SubmitResponseDto list \<Rightarrow> db \<Rightarrow> unit outcome" where
  "submitFeedback_tx env context evaluationId responses tx =
     (case fe_createMany env of
        Some e \<Rightarrow> (Inl e, tx)
      | None \<Rightarrow>
          (let tx1 = tx\<lparr>evaluationResponses :=
                         evaluationResponses tx @
                         map (\<lambda>r. \<lparr>r_questionId = sr_questionId r, r_userId = userId context,
                                   r_answer = sr_answer r, r_submittedAt = fe_now env\<rparr>)
                             responses\<rparr>
           in case fe_participantUpdate env of
                Some e \<Rightarrow> (Inl e, tx1)
              | None \<Rightarrow>
                  (case update_where
                          (\<lambda>p. ep_evaluationId p = evaluationId \<and> ep_userId p = userId context)
                          (\<lambda>p. p\<lparr>ep_completedAt := Some (fe_now env),
                                  ep_status := ParticipantStatus.ACCEPTED\<rparr>)
                          (evaluationParticipants tx1) of
                     Inl e \<Rightarrow> (Inl e, tx1)
                   | Inr ps \<Rightarrow> (Inr (), tx1\<lparr>evaluationParticipants := ps\<rparr>))))"

definition submitFeedback ::
  "feedback_env \<Rightarrow> TenantContext \<Rightarrow> string \<Rightarrow> SubmitResponseDto list \<Rightarrow> db \<Rightarrow> unit outcome" where
  "submitFeedback env context evaluationId responses s =
     (if role context \<noteq> TESTER then
        (Inl (ForbiddenException ''Only TESTERs can submit feedback''), s)
      else
        case find (\<lambda>p. ep_evaluationId p = evaluationId \<and> ep_userId p = userId context)
                  (evaluationParticipants s) of
          None \<Rightarrow> (Inl (ForbiddenException ''You must join this evaluation first''), s)
        | Some participation \<Rightarrow>
            if ep_completedAt participation \<noteq> None then
              (Inl (BadRequestException
                     ''You have already submitted feedback for this evaluation''), s)
            else
              (case find (\<lambda>e. ev_id e = evaluationId \<and> ev_status e = ACTIVE) (evaluations s) of
                 None \<Rightarrow> (Inl (NotFoundException ''Active evaluation not found''), s)
               | Some evaluation \<Rightarrow>
                   (let questionIds =
                          map q_id (filter (\<lambda>q. q_evaluationId q = ev_id evaluation)
                                           (evaluationQuestions s))
                    in case validateQuestionIds questionIds responses of
                         Some e \<Rightarrow> (Inl e, s)
                       | None \<Rightarrow>
                           transaction (submitFeedback_tx env context evaluationId responses) s)))"

section \<open>BaseService\<close>

text \<open>The keys of \<open>PermissionConfig\<close>; each key is optional.\<close>

datatype action = FindAll | FindOne | Create | Update | Delete

type_synonym PermissionConfig = "action \<rightharpoonup> Role list"

definition DEFAULT_PERMISSIONS :: PermissionConfig where
  "DEFAULT_PERMISSIONS =
     [FindAll \<mapsto> [FOUNDER, TESTER],
      FindOne \<mapsto> [FOUNDER, TESTER],
      Create \<mapsto> [FOUNDER, TESTER],
      Update \<mapsto> [FOUNDER, TESTER],
      Delete \<mapsto> [FOUNDER, TESTER]]"

text \<open>The constructor: \<open>{ ...DEFAULT_PERMISSIONS, ...permissions }\<close>.\<close>

definition BaseService_permissions :: "PermissionConfig \<Rightarrow> PermissionConfig" where
  "BaseService_permissions custom = DEFAULT_PERMISSIONS ++ custom"

fun Role_name :: "Role \<Rightarrow> string" where
  "Role_name FOUNDER = ''FOUNDER''"
| "Role_name TESTER = ''TESTER''"
| "Role_name MEMBER = ''MEMBER''"

fun action_name :: "action \<Rightarrow> string" where
  "action_name FindAll = ''findAll''"
| "action_name FindOne = ''findOne''"
| "action_name Create = ''create''"
| "action_name Update = ''update''"
| "action_name Delete = ''delete''"

text \<open>\<open>checkPermission\<close> returns the exception it throws, if any.\<close>

definition checkPermission ::
  "PermissionConfig \<Rightarrow> string \<Rightarrow> TenantContext \<Rightarrow> action \<Rightarrow> error option" where
  "checkPermission permissions modelName context act =
     (case permissions act of
        None \<Rightarrow>
          Some (ForbiddenException
                 (''Role '' @ Role_name (role context) @ '' is not authorized to '' @
                  action_name act @ '' '' @ modelName))
      | Some allowedRoles \<Rightarrow>
          if role context \<in> set allowedRoles then None
          else Some (ForbiddenException
                      (''Role '' @ Role_name (role context) @ '' is not authorized to '' @
                       action_name act @ '' '' @ modelName)))"

text \<open>
  A Prisma \<open>where\<close> object is the predicate it denotes on a row; spreading one into
  another is their conjunction. \<open>buildTenantWhere\<close> is \<open>{ accountId: context.tenantId }\<close>.
\<close>

definition buildTenantWhere :: "TenantContext \<Rightarrow> 'a base_row_scheme \<Rightarrow> bool" where
  "buildTenantWhere context r \<longleftrightarrow> br_accountId r = tenantId context"

text \<open>\<open>BaseService.findOne\<close>, over the rows of the service's model.\<close>

definition BaseService_findOne ::
  "PermissionConfig \<Rightarrow> string \<Rightarrow> 'a base_row_scheme list \<Rightarrow> TenantContext \<Rightarrow> string
     \<Rightarrow> error + 'a base_row_scheme" where
  "BaseService_findOne permissions modelName rows context ident =
     (case checkPermission permissions modelName context FindOne of
        Some e \<Rightarrow> Inl e
      | None \<Rightarrow>
          (case find (\<lambda>r. br_id r = ident \<and> buildTenantWhere context r) rows of
             None \<Rightarrow> Inl (NotFoundException (modelName @ '' with ID '' @ ident @ '' not found''))
           | Some record \<Rightarrow> Inr record))"

section \<open>ProjectService\<close>

definition ProjectService_permissions :: PermissionConfig where
  "ProjectService_permissions =
     BaseService_permissions
       [Create \<mapsto> [FOUNDER],
        Update \<mapsto> [FOUNDER],
        Delete \<mapsto> [FOUNDER],
        FindAll \<mapsto> [FOUNDER, TESTER, MEMBER],
        FindOne \<mapsto> [FOUNDER, TESTER, MEMBER]]"

text \<open>
  \<open>buildRoleScopedWhere\<close>: the tenant filter, \<open>deletedAt: null\<close> and, for MEMBER,
  \<open>members: { some: { userId } }\<close>, which reads the membership table.
\<close>

definition buildRoleScopedWhere :: "TenantContext \<Rightarrow> db \<Rightarrow> project \<Rightarrow> bool" where
  "buildRoleScopedWhere context s p \<longleftrightarrow>
     (if role context = MEMBER then
        (buildTenantWhere context p \<and> p_deletedAt p = None) \<and>
        list_ex (\<lambda>m. pm_projectId m = br_id p \<and> pm_userId m = userId context) (projectMembers s)
      else buildTenantWhere context p \<and> p_deletedAt p = None)"






text \<open>
  A project as \<open>findOne\<close> returns it: with its owner and with its membership rows, each
  with \<open>user: { id, email, role }\<close>.
\<close>

record project_detail =
  pd_project :: project
  pd_owner :: "(string \<times> string) option"
  pd_members :: "(projectMember \<times> (string \<times> string \<times> Role) option) list"

definition include_detail :: "db \<Rightarrow> project \<Rightarrow> project_detail" where
  "include_detail s p =
     \<lparr>pd_project = p,
      pd_owner = map_option (\<lambda>u. (u_id u, u_email u)) (find (\<lambda>u. u_id u = p_ownerId p) (users s)),
      pd_members =
        map (\<lambda>m. (m, map_option (\<lambda>u. (u_id u, u_email u, u_role u))
                                 (find (\<lambda>u. u_id u = pm_userId m) (users s))))
            (filter (\<lambda>m. pm_projectId m = br_id p) (projectMembers s))\<rparr>"

definition ProjectService_findOne :: "TenantContext \<Rightarrow> string \<Rightarrow> db \<Rightarrow> error + project_detail" where
  "ProjectService_findOne context ident s =
     (case checkPermission ProjectService_permissions ''project'' context FindOne of
        Some e \<Rightarrow> Inl e
      | None \<Rightarrow>
          (case find (\<lambda>p. br_id p = ident \<and> buildRoleScopedWhere context s p) (projects s) of
             None \<Rightarrow> Inl (JsError (''Project with ID '' @ ident @ '' not found or access denied''))
           | Some record \<Rightarrow> Inr (include_detail s record)))"

text \<open>
  The visibility rule in the words of the specification, to compare with
  \<open>buildRoleScopedWhere\<close>: a project of the caller's tenant that is not soft-deleted
  and, when the caller is a MEMBER, has a membership row for the caller's user id.
\<close>

definition visible_to :: "TenantContext \<Rightarrow> db \<Rightarrow> project \<Rightarrow> bool" where
  "visible_to context s p \<longleftrightarrow>
     br_accountId p = tenantId context \<and> p_deletedAt p = None \<and>
     (role context = MEMBER \<longrightarrow>
        (\<exists>m\<in>set (projectMembers s). pm_projectId m = br_id p \<and> pm_userId m = userId context))"

definition addMember :: "TenantContext \<Rightarrow> string \<Rightarrow> string \<Rightarrow> db \<Rightarrow> unit outcome" where
  "addMember context projectId uid s =
     (if role context \<noteq> FOUNDER then
        (Inl (JsError ''Only FOUNDERs can add project members''), s)
      else
        case find (\<lambda>p. br_id p = projectId \<and> buildTenantWhere context p) (projects s) of
          None \<Rightarrow> (Inl (JsError ''Project not found''), s)
        | Some project \<Rightarrow>
            (Inr (),
             s\<lparr>projectMembers :=
                 projectMembers s @ [\<lparr>pm_projectId = projectId, pm_userId = uid\<rparr>]\<rparr>))"

section \<open>InvitationService\<close>

text \<open>
  What a call takes from outside the store: the configured \<open>APP_URL\<close>, the clock
  (\<open>new Date()\<close>, \<open>Date.now()\<close>), the value of \<open>randomUUID()\<close> and the id the store
  gives a new row.
\<close>

record invite_env =
  ie_appUrl :: string
  ie_now :: int
  ie_randomUUID :: string
  ie_newId :: string

definition expirationMinutes :: int where
  "expirationMinutes = 60"

record SendInviteDto =
  si_email :: string
  si_role :: "string option"

record invite_sent =
  is_message :: string
  is_id :: string
  is_email :: string
  is_role :: Role
  is_expiresAt :: int
  is_inviteLink :: string

text \<open>
  Modelled from the spec: the column defaults of \<open>Invitation\<close> live in the Prisma
  schema, which is missing; \<open>sendInvite\<close> supplies the other columns. By the spec a new
  invitation is Pending; it has not been accepted.
\<close>

definition new_invitation ::
  "string \<Rightarrow> string \<Rightarrow> string \<Rightarrow> Role \<Rightarrow> string \<Rightarrow> string \<Rightarrow> int \<Rightarrow> invitation" where
  "new_invitation ident mail token r account inviter expiresAt =
     \<lparr>inv_id = ident, inv_email = mail, inv_token = token, inv_role = r,
      inv_accountId = account, inv_invitedById = inviter,
      inv_status = InvitationStatus.PENDING, inv_expiresAt = expiresAt, inv_acceptedAt = None\<rparr>"

text \<open>The second half of \<open>sendInvite\<close>: token, expiry, insert, link.\<close>

definition sendInvite_create ::
  "invite_env \<Rightarrow> TenantContext \<Rightarrow> SendInviteDto \<Rightarrow> db \<Rightarrow> invite_sent outcome" where
  "sendInvite_create env context dto s =
     (let token = ie_randomUUID env;
          expiresAt = ie_now env + expirationMinutes * 60 * 1000;
          invitation =
            new_invitation (ie_newId env) (si_email dto) token
              (if si_role dto = Some ''TESTER'' then TESTER else MEMBER)
              (tenantId context) (userId context) expiresAt;
          inviteLink = ie_appUrl env @ ''/register?token='' @ token
      in (Inr \<lparr>is_message = ''Invitation sent successfully'',
               is_id = inv_id invitation, is_email = inv_email invitation,
               is_role = inv_role invitation, is_expiresAt = inv_expiresAt invitation,
               is_inviteLink = inviteLink\<rparr>,
          s\<lparr>invitations := invitations s @ [invitation]\<rparr>))"

definition sendInvite ::
  "invite_env \<Rightarrow> TenantContext \<Rightarrow> SendInviteDto \<Rightarrow> db \<Rightarrow> invite_sent outcome" where
  "sendInvite env context dto s =
     (if role context \<noteq> FOUNDER then
        (Inl (ForbiddenException ''Only FOUNDERs can manage invitations''), s)
      else
        case find (\<lambda>u. u_email u = si_email dto \<and> u_accountId u = tenantId context) (users s) of
          Some existingUser \<Rightarrow>
            (Inl (ConflictException
                   ''User with this email already exists in your organization''), s)
        | None \<Rightarrow>
            (case find (\<lambda>i. inv_email i = si_email dto \<and> inv_accountId i = tenantId context \<and>
                            inv_status i = InvitationStatus.PENDING) (invitations s) of
               Some existingInvite \<Rightarrow>
                 if inv_expiresAt existingInvite > ie_now env then
                   (Inl (ConflictException
                          ''An active invitation already exists for this email. Please wait for it to expire or revoke it.''),
                    s)
                 else
                   (case update_where (\<lambda>i. inv_id i = inv_id existingInvite)
                                      (\<lambda>i. i\<lparr>inv_status := EXPIRED\<rparr>) (invitations s) of
                      Inl e \<Rightarrow> (Inl e, s)
                    | Inr invs \<Rightarrow> sendInvite_create env context dto (s\<lparr>invitations := invs\<rparr>))
             | None \<Rightarrow> sendInvite_create env context dto s))"

text \<open>
  The invitation rows as \<open>invitation.update({where: {id}, data: {status: EXPIRED}})\<close>
  leaves them.
\<close>

definition mark_expired :: "string \<Rightarrow> invitation list \<Rightarrow> invitation list" where
  "mark_expired ident invs =
     map (\<lambda>i. if inv_id i = ident then i\<lparr>inv_status := EXPIRED\<rparr> else i) invs"

fun InvitationStatus_name :: "InvitationStatus \<Rightarrow> string" where
  "InvitationStatus_name InvitationStatus.PENDING = ''PENDING''"
| "InvitationStatus_name InvitationStatus.ACCEPTED = ''ACCEPTED''"
| "InvitationStatus_name EXPIRED = ''EXPIRED''"
| "InvitationStatus_name REVOKED = ''REVOKED''"

text \<open>\<open>String.prototype.toLowerCase\<close> on the ASCII letters.\<close>

definition toLowerCase :: "string \<Rightarrow> string" where
  "toLowerCase str =
     map (\<lambda>c. if 65 \<le> (of_char c :: nat) \<and> (of_char c :: nat) \<le> 90
               then char_of ((of_char c :: nat) + 32) else c) str"

record token_info =
  ti_valid :: bool
  ti_email :: string
  ti_role :: Role
  ti_organization :: string
  ti_invitedBy :: string
  ti_expiresAt :: int

text \<open>
  \<open>validateToken\<close>. The included \<open>account\<close> and \<open>invitedBy\<close> are looked up by id; reading
  a field of a missing one is a JavaScript \<open>TypeError\<close>.
\<close>

definition validateToken :: "int \<Rightarrow> string \<Rightarrow> db \<Rightarrow> token_info outcome" where
  "validateToken now token s =
     (case find (\<lambda>i. inv_token i = token) (invitations s) of
        None \<Rightarrow> (Inl (NotFoundException ''Invalid invitation token''), s)
      | Some invitation \<Rightarrow>
          if inv_status invitation \<noteq> InvitationStatus.PENDING then
            (Inl (BadRequestException
                   (''Invitation has already been '' @
                    toLowerCase (InvitationStatus_name (inv_status invitation)))), s)
          else if inv_expiresAt invitation < now then
            (case update_where (\<lambda>i. inv_id i = inv_id invitation)
                               (\<lambda>i. i\<lparr>inv_status := EXPIRED\<rparr>) (invitations s) of
               Inl e \<Rightarrow> (Inl e, s)
             | Inr invs \<Rightarrow>
                 (Inl (BadRequestException ''Invitation has expired''), s\<lparr>invitations := invs\<rparr>))
          else
            (case (find (\<lambda>a. acc_id a = inv_accountId invitation) (accounts s),
                   find (\<lambda>u. u_id u = inv_invitedById invitation) (users s)) of
               (Some acct, Some inviter) \<Rightarrow>
                 (Inr \<lparr>ti_valid = True, ti_email = inv_email invitation,
                       ti_role = inv_role invitation, ti_organization = acc_name acct,
                       ti_invitedBy = u_email inviter,
                       ti_expiresAt = inv_expiresAt invitation\<rparr>, s)
             | _ \<Rightarrow> (Inl (JsError ''TypeError: Cannot read properties of null''), s)))"

text \<open>
  \<open>supabaseService.signUp(email, password, {role, accountId})\<close> is the identity
  provider's: it rejects, or returns the id of the identity it created.
\<close>

type_synonym supabase_signUp = "string \<Rightarrow> string \<Rightarrow> Role \<Rightarrow> string \<Rightarrow> error + string"

record accept_env =
  ae_now :: int
  ae_newId :: string
  ae_signUp :: supabase_signUp

record AcceptInviteDto =
  ai_token :: string
  ai_password :: string

text \<open>The body of the transaction of \<open>acceptInvitation\<close>.\<close>

definition acceptInvitation_tx :: "accept_env \<Rightarrow> invitation \<Rightarrow> string \<Rightarrow> db \<Rightarrow> user outcome" where
  "acceptInvitation_tx env invitation supabaseUserId tx =
     (let newUser = \<lparr>u_id = ae_newId env, u_supabaseId = supabaseUserId,
                     u_email = inv_email invitation, u_role = inv_role invitation,
                     u_accountId = inv_accountId invitation\<rparr>;
          tx1 = tx\<lparr>users := users tx @ [newUser]\<rparr>
      in case update_where (\<lambda>i. inv_id i = inv_id invitation)
                (\<lambda>i. i\<lparr>inv_status := InvitationStatus.ACCEPTED, inv_acceptedAt := Some (ae_now env)\<rparr>)
                (invitations tx1) of
           Inl e \<Rightarrow> (Inl e, tx1)
         | Inr invs \<Rightarrow> (Inr newUser, tx1\<lparr>invitations := invs\<rparr>))"

definition acceptInvitation :: "accept_env \<Rightarrow> AcceptInviteDto \<Rightarrow> db \<Rightarrow> (string \<times> user) outcome" where
  "acceptInvitation env dto s =
     (case find (\<lambda>i. inv_token i = ai_token dto) (invitations s) of
        None \<Rightarrow> (Inl (NotFoundException ''Invalid invitation token''), s)
      | Some invitation \<Rightarrow>
          if inv_status invitation \<noteq> InvitationStatus.PENDING then
            (Inl (BadRequestException
                   (''Invitation has already been '' @
                    toLowerCase (InvitationStatus_name (inv_status invitation)))), s)
          else if inv_expiresAt invitation < ae_now env then
            (case update_where (\<lambda>i. inv_id i = inv_id invitation)
                               (\<lambda>i. i\<lparr>inv_status := EXPIRED\<rparr>) (invitations s) of
               Inl e \<Rightarrow> (Inl e, s)
             | Inr invs \<Rightarrow>
                 (Inl (BadRequestException ''Invitation has expired''), s\<lparr>invitations := invs\<rparr>))
          else
            (case find (\<lambda>u. u_email u = inv_email invitation) (users s) of
               Some existingUser \<Rightarrow>
                 (Inl (ConflictException ''User with this email already exists''), s)
             | None \<Rightarrow>
                 (case ae_signUp env (inv_email invitation) (ai_password dto)
                         (inv_role invitation) (inv_accountId invitation) of
                    Inl e \<Rightarrow> (Inl e, s)
                  | Inr supabaseUserId \<Rightarrow>
                      (case transaction (acceptInvitation_tx env invitation supabaseUserId) s of
                         (Inl e, s') \<Rightarrow> (Inl e, s')
                       | (Inr newUser, s') \<Rightarrow>
                           (Inr (''Account created successfully'', newUser), s')))))"

text \<open>\<open>resendInvitation\<close> returns the message and the new link.\<close>

definition resendInvitation ::
  "invite_env \<Rightarrow> TenantContext \<Rightarrow> string \<Rightarrow> db \<Rightarrow> (string \<times> string) outcome" where
  "resendInvitation env context invitationId s =
     (if role context \<noteq> FOUNDER then
        (Inl (ForbiddenException ''Only FOUNDERs can manage invitations''), s)
      else
        case find (\<lambda>i. inv_id i = invitationId \<and> inv_accountId i = tenantId context)
                  (invitations s) of
          None \<Rightarrow> (Inl (NotFoundException ''Invitation not found''), s)
        | Some invitation \<Rightarrow>
            (let token = ie_randomUUID env;
                 expiresAt = ie_now env + expirationMinutes * 60 * 1000
             in case update_where (\<lambda>i. inv_id i = invitationId)
                       (\<lambda>i. i\<lparr>inv_token := token, inv_expiresAt := expiresAt,
                               inv_status := InvitationStatus.PENDING\<rparr>)
                       (invitations s) of
                  Inl e \<Rightarrow> (Inl e, s)
                | Inr invs \<Rightarrow>
                    (Inr (''Invitation resent successfully'',
                          ie_appUrl env @ ''/register?token='' @ token),
                     s\<lparr>invitations := invs\<rparr>)))"

section \<open>AuthService\<close>

record SignupDto =
  sd_email :: string
  sd_password :: string
  sd_role :: Role
  sd_accountName :: "string option"

text \<open>
  What \<open>signup\<close> takes from outside: the ids the store gives the new rows, the identity
  provider, and whether the store rejects the two calls that follow the creation of the
  account: \<open>user.create\<close> in the \<open>try\<close> block and \<open>account.delete\<close> in the \<open>catch\<close>
  block (\<open>None\<close>: the call goes through).
\<close>

record signup_env =
  se_newAccountId :: string
  se_newUserId :: string
  se_signUp :: supabase_signUp
  se_userCreate :: "error option"
  se_accountDelete :: "error option"

text \<open>The \<open>try\<close> block of \<open>signup\<close>, after the account row \<open>acct\<close> was inserted.\<close>

definition signup_try :: "signup_env \<Rightarrow> SignupDto \<Rightarrow> account \<Rightarrow> db \<Rightarrow> (string \<times> user) outcome" where
  "signup_try env dto acct s =
     (case se_signUp env (sd_email dto) (sd_password dto) (sd_role dto) (acc_id acct) of
        Inl e \<Rightarrow> (Inl e, s)
      | Inr supabaseUserId \<Rightarrow>
          (case se_userCreate env of
             Some e \<Rightarrow> (Inl e, s)
           | None \<Rightarrow>
               (let newUser = \<lparr>u_id = se_newUserId env, u_supabaseId = supabaseUserId,
                               u_email = sd_email dto, u_role = sd_role dto,
                               u_accountId = acc_id acct\<rparr>
                in (Inr (''User registered successfully'', newUser),
                    s\<lparr>users := users s @ [newUser]\<rparr>))))"

definition signup :: "signup_env \<Rightarrow> SignupDto \<Rightarrow> db \<Rightarrow> (string \<times> user) outcome" where
  "signup env dto s =
     (if sd_role dto = FOUNDER \<and> (sd_accountName dto = None \<or> sd_accountName dto = Some [])
      then (Inl (BadRequestException ''Account name is required for founders''), s)
      else
        case find (\<lambda>u. u_email u = sd_email dto) (users s) of
          Some existingUser \<Rightarrow>
            (Inl (ConflictException ''User with this email already exists''), s)
        | None \<Rightarrow>
            (let acct = \<lparr>acc_id = se_newAccountId env,
                         acc_name = (case sd_accountName dto of
                                       None \<Rightarrow> sd_email dto @ [CHR 0x27] @ ''s Account''
                                     | Some n \<Rightarrow> if n = [] then sd_email dto @ [CHR 0x27] @ ''s Account''
                                                 else n)\<rparr>;
                 s1 = s\<lparr>accounts := accounts s @ [acct]\<rparr>
             in case signup_try env dto acct s1 of
                  (Inr r, s2) \<Rightarrow> (Inr r, s2)
                | (Inl err, s2) \<Rightarrow>
                    (case se_accountDelete env of
                       Some cleanupError \<Rightarrow> (Inl cleanupError, s2)
                     | None \<Rightarrow>
                         (Inl err,
                          s2\<lparr>accounts := filter (\<lambda>a. acc_id a \<noteq> acc_id acct) (accounts s2)\<rparr>))))"

section \<open>A small store to run the services on\<close>

text \<open>
  Two tenants, \<open>A\<close> and \<open>B\<close>. Tenant \<open>A\<close> has a founder, a tester and a member, three
  projects (one soft-deleted; the member is assigned to the first) and an Active and a
  Draft evaluation; tenant \<open>B\<close> has a project and an Active evaluation.
\<close>

definition founderA :: TenantContext where
  "founderA = \<lparr>userId = ''uA1'', supabaseId = ''sA1'', email = ''founder@a.com'',
               role = FOUNDER, tenantId = ''A''\<rparr>"

definition testerA :: TenantContext where
  "testerA = \<lparr>userId = ''uA2'', supabaseId = ''sA2'', email = ''tester@a.com'',
              role = TESTER, tenantId = ''A''\<rparr>"

definition memberA :: TenantContext where
  "memberA = \<lparr>userId = ''uA3'', supabaseId = ''sA3'', email = ''member@a.com'',
              role = MEMBER, tenantId = ''A''\<rparr>"

definition projectA1 :: project where
  "projectA1 = \<lparr>br_id = ''pA1'', br_accountId = ''A'', p_name = ''Alpha'', p_description = None,
                p_ownerId = ''uA1'', p_deletedAt = None, p_createdAt = 10\<rparr>"

definition projectA2 :: project where
  "projectA2 = \<lparr>br_id = ''pA2'', br_accountId = ''A'', p_name = ''Beta'', p_description = None,
                p_ownerId = ''uA1'', p_deletedAt = None, p_createdAt = 20\<rparr>"

definition projectA3 :: project where
  "projectA3 = \<lparr>br_id = ''pA3'', br_accountId = ''A'', p_name = ''Gamma'', p_description = None,
                p_ownerId = ''uA1'', p_deletedAt = Some 40, p_createdAt = 30\<rparr>"

definition projectB1 :: project where
  "projectB1 = \<lparr>br_id = ''pB1'', br_accountId = ''B'', p_name = ''Delta'', p_description = None,
                p_ownerId = ''uB1'', p_deletedAt = None, p_createdAt = 15\<rparr>"

definition demo_db :: db where
  "demo_db =
     \<lparr>users =
        [\<lparr>u_id = ''uA1'', u_supabaseId = ''sA1'', u_email = ''founder@a.com'', u_role = FOUNDER,
          u_accountId = ''A''\<rparr>,
         \<lparr>u_id = ''uA2'', u_supabaseId = ''sA2'', u_email = ''tester@a.com'', u_role = TESTER,
          u_accountId = ''A''\<rparr>,
         \<lparr>u_id = ''uA3'', u_supabaseId = ''sA3'', u_email = ''member@a.com'', u_role = MEMBER,
          u_accountId = ''A''\<rparr>,
         \<lparr>u_id = ''uB1'', u_supabaseId = ''sB1'', u_email = ''founder@b.com'', u_role = FOUNDER,
          u_accountId = ''B''\<rparr>,
         \<lparr>u_id = ''uB2'', u_supabaseId = ''sB2'', u_email = ''member@b.com'', u_role = MEMBER,
          u_accountId = ''B''\<rparr>],
      accounts = [\<lparr>acc_id = ''A'', acc_name = ''Acme''\<rparr>, \<lparr>acc_id = ''B'', acc_name = ''Globex''\<rparr>],
      projects = [projectA1, projectA2, projectA3, projectB1],
      projectMembers = [\<lparr>pm_projectId = ''pA1'', pm_userId = ''uA3''\<rparr>],
      evaluations =
        [\<lparr>ev_id = ''eA1'', ev_title = ''Onboarding Survey'', ev_status = ACTIVE,
          ev_projectId = ''pA1'', ev_createdById = ''uA1'', ev_accountId = ''A''\<rparr>,
         \<lparr>ev_id = ''eA2'', ev_title = ''Checkout Survey'', ev_status = DRAFT,
          ev_projectId = ''pA1'', ev_createdById = ''uA1'', ev_accountId = ''A''\<rparr>,
         \<lparr>ev_id = ''eB1'', ev_title = ''Pricing Survey'', ev_status = ACTIVE,
          ev_projectId = ''pB1'', ev_createdById = ''uB1'', ev_accountId = ''B''\<rparr>],
      evaluationQuestions =
        [\<lparr>q_id = ''qA1'', q_text = ''Liked it?'', q_evaluationId = ''eA1''\<rparr>,
         \<lparr>q_id = ''qA2'', q_text = ''Score 1-5'', q_evaluationId = ''eA1''\<rparr>,
         \<lparr>q_id = ''qB1'', q_text = ''Fair price?'', q_evaluationId = ''eB1''\<rparr>],
      evaluationParticipants = [],
      evaluationResponses = [],
      invitations = []\<rparr>"

text \<open>The store after tester \<open>uA2\<close> joined evaluation \<open>eA1\<close> at time 1000.\<close>

definition joined_db :: db where
  "joined_db = snd (joinEvaluation 1000 testerA ''eA1'' demo_db)"

text \<open>
  Feedback at time 2000: \<open>calm\<close> with a store that takes both writes, \<open>update_lost\<close>
  with a store that takes the responses and then rejects the participation update.
\<close>

definition calm :: feedback_env where
  "calm = \<lparr>fe_now = 2000, fe_createMany = None, fe_participantUpdate = None\<rparr>"

definition update_lost :: feedback_env where
  "update_lost = \<lparr>fe_now = 2000, fe_createMany = None,
                  fe_participantUpdate = Some (StoreError ''Connection lost'')\<rparr>"

text \<open>
  Invitations of \<open>new@x.com\<close> to tenant \<open>A\<close> by its founder. \<open>invited_db\<close> is the store
  after one \<open>sendInvite\<close> at time 0. \<open>resent_db\<close> is the store after this history: an
  invitation at time 0; a second one at 3700000, after the first has expired; a resend of
  the first at 3800000 and of the second at 3900000 (a resend inserts no row, so the new
  id goes unused).
\<close>

definition env_at :: "int \<Rightarrow> string \<Rightarrow> string \<Rightarrow> invite_env" where
  "env_at now uuid ident =
     \<lparr>ie_appUrl = ''http://localhost:3000'', ie_now = now, ie_randomUUID = uuid, ie_newId = ident\<rparr>"

definition invite_dto :: SendInviteDto where
  "invite_dto = \<lparr>si_email = ''new@x.com'', si_role = None\<rparr>"

definition invited_db :: db where
  "invited_db = snd (sendInvite (env_at 0 ''t1'' ''i1'') founderA invite_dto demo_db)"

definition resent_db :: db where
  "resent_db =
     snd (resendInvitation (env_at 3900000 ''t4'' ''-'') founderA ''i2''
       (snd (resendInvitation (env_at 3800000 ''t3'' ''-'') founderA ''i1''
         (snd (sendInvite (env_at 3700000 ''t2'' ''i2'') founderA invite_dto invited_db)))))"

text \<open>
  A signup of \<open>carol@c.com\<close> as founder of a new tenant, in which the identity provider
  rejects the new identity; \<open>cleanup\<close> is what the store answers to \<open>account.delete\<close>.
\<close>

definition signup_dto :: SignupDto where
  "signup_dto = \<lparr>sd_email = ''carol@c.com'', sd_password = ''secret1'', sd_role = FOUNDER,
                 sd_accountName = Some ''Initech''\<rparr>"

definition rejecting_env :: "error option \<Rightarrow> signup_env" where
  "rejecting_env cleanup =
     \<lparr>se_newAccountId = ''C'', se_newUserId = ''uC1'',
      se_signUp = (\<lambda>mail password r account. Inl (StoreError ''User already registered'')),
      se_userCreate = None, se_accountDelete = cleanup\<rparr>"

section \<open>Lemmas on the store and on the services\<close>

lemma find_None_set: "find P xs = None \<longleftrightarrow> (\<forall>x\<in>set xs. \<not> P x)"
  by (induction xs) auto

lemma find_Some_set: "(\<exists>x\<in>set xs. P x) \<Longrightarrow> \<exists>y. find P xs = Some y \<and> y \<in> set xs \<and> P y"
  by (induction xs) auto

lemma find_Some_holds: "find P xs = Some y \<Longrightarrow> y \<in> set xs \<and> P y"
  by (induction xs) (auto split: if_splits)

lemma validateQuestionIds_None:
  "validateQuestionIds qids rs = None \<longleftrightarrow> (\<forall>r\<in>set rs. sr_questionId r \<in> set qids)"
  by (induction rs) auto

lemma validateQuestionIds_Some:
  "\<exists>r\<in>set rs. sr_questionId r \<notin> set qids \<Longrightarrow>
   \<exists>r\<in>set rs. sr_questionId r \<notin> set qids \<and>
     validateQuestionIds qids rs =
       Some (BadRequestException
              (''Question '' @ sr_questionId r @ '' does not belong to this evaluation''))"
  by (induction rs) auto

lemma transaction_failure_keeps_store:
  "fst (transaction body s) = Inl e \<Longrightarrow> snd (transaction body s) = s"
  by (auto simp: transaction_def split: prod.splits sum.splits)

lemma update_where_found:
  "find P rows = Some y \<Longrightarrow>
   update_where P f rows = Inr (map (\<lambda>r. if P r then f r else r) rows)"
  by (auto simp: update_where_def list_ex_iff dest: find_Some_holds)

lemma submitFeedback_failure_keeps_store:
  "fst (submitFeedback env context evaluationId responses s) = Inl e \<Longrightarrow>
   snd (submitFeedback env context evaluationId responses s) = s"
  by (auto simp: submitFeedback_def Let_def transaction_failure_keeps_store
           split: option.splits if_splits)

lemma questionIds_set:
  "find (\<lambda>e. ev_id e = evaluationId \<and> ev_status e = ACTIVE) (evaluations s) = Some evaluation \<Longrightarrow>
   set (map q_id (filter (\<lambda>q. q_evaluationId q = ev_id evaluation) (evaluationQuestions s))) =
   set (map q_id (filter (\<lambda>q. q_evaluationId q = evaluationId) (evaluationQuestions s)))"
  by (auto dest!: find_Some_holds)

text \<open>
  The body alone is not atomic: when the store takes the responses and rejects the
  update, the body ends with the responses in the store.
\<close>

lemma submitFeedback_tx_leaves_responses:
  "fe_createMany env = None \<Longrightarrow> fe_participantUpdate env = Some e \<Longrightarrow>
   submitFeedback_tx env context evaluationId responses tx =
     (Inl e,
      tx\<lparr>evaluationResponses :=
           evaluationResponses tx @
           map (\<lambda>r. \<lparr>r_questionId = sr_questionId r, r_userId = userId context,
                     r_answer = sr_answer r, r_submittedAt = fe_now env\<rparr>) responses\<rparr>)"
  by (simp add: submitFeedback_tx_def)

lemma toLowerCase_EXPIRED: "toLowerCase ''EXPIRED'' = ''expired''"
  by code_simp

lemma find_map_invariant:
  "(\<And>x. P (f x) = P x) \<Longrightarrow> find P (map f xs) = map_option f (find P xs)"
  by (induction xs) auto

lemma find_token_mark_expired:
  "find (\<lambda>i. inv_token i = token) (mark_expired ident invs) =
   map_option (\<lambda>i. if inv_id i = ident then i\<lparr>inv_status := EXPIRED\<rparr> else i)
              (find (\<lambda>i. inv_token i = token) invs)"
  unfolding mark_expired_def by (rule find_map_invariant) simp

lemma invited_db_eq:
  "invited_db = demo_db\<lparr>invitations :=
      [\<lparr>inv_id = ''i1'', inv_email = ''new@x.com'', inv_token = ''t1'', inv_role = MEMBER,
        inv_accountId = ''A'', inv_invitedById = ''uA1'', inv_status = InvitationStatus.PENDING,
        inv_expiresAt = 3600000, inv_acceptedAt = None\<rparr>]\<rparr>"
  by (simp add: invited_db_def sendInvite_def sendInvite_create_def new_invitation_def
        expirationMinutes_def env_at_def invite_dto_def founderA_def demo_db_def Let_def)

lemma resent_db_eq:
  "resent_db = demo_db\<lparr>invitations :=
      [\<lparr>inv_id = ''i1'', inv_email = ''new@x.com'', inv_token = ''t3'', inv_role = MEMBER,
        inv_accountId = ''A'', inv_invitedById = ''uA1'', inv_status = InvitationStatus.PENDING,
        inv_expiresAt = 7400000, inv_acceptedAt = None\<rparr>,
       \<lparr>inv_id = ''i2'', inv_email = ''new@x.com'', inv_token = ''t4'', inv_role = MEMBER,
        inv_accountId = ''A'', inv_invitedById = ''uA1'', inv_status = InvitationStatus.PENDING,
        inv_expiresAt = 7500000, inv_acceptedAt = None\<rparr>]\<rparr>"
  by (simp add: resent_db_def invited_db_eq sendInvite_def sendInvite_create_def new_invitation_def
        resendInvitation_def update_where_def
        expirationMinutes_def env_at_def invite_dto_def founderA_def demo_db_def Let_def)

lemma ProjectService_may_read:
  "checkPermission ProjectService_permissions ''project'' context FindAll = None"
  "checkPermission ProjectService_permissions ''project'' context FindOne = None"
  by (cases "role context";
      simp add: checkPermission_def ProjectService_permissions_def BaseService_permissions_def
                DEFAULT_PERMISSIONS_def)+

lemma buildRoleScopedWhere_visible:
  "buildRoleScopedWhere context s = visible_to context s"
  by (auto simp: fun_eq_iff buildRoleScopedWhere_def visible_to_def buildTenantWhere_def
                 list_ex_iff)

lemma demo_projects: "projects demo_db = [projectA1, projectA2, projectA3, projectB1]"
  by (simp add: demo_db_def)

lemma demo_project_ids:
  "br_id projectA1 = ''pA1''" "br_id projectA2 = ''pA2''"
  "br_id projectA3 = ''pA3''" "br_id projectB1 = ''pB1''"
  by (simp_all add: projectA1_def projectA2_def projectA3_def projectB1_def)

lemma demo_project_by_id:
  "r \<in> set (projects demo_db) \<Longrightarrow> br_id r = ''pA1'' \<Longrightarrow> r = projectA1"
  "r \<in> set (projects demo_db) \<Longrightarrow> br_id r = ''pA2'' \<Longrightarrow> r = projectA2"
  "r \<in> set (projects demo_db) \<Longrightarrow> br_id r = ''pA3'' \<Longrightarrow> r = projectA3"
  by (auto simp: demo_projects demo_project_ids)


section \<open>Properties\<close>

subsection \<open>Tenant isolation of joining and of submitting feedback\<close>

text \<open>
  C1. Every operation under a tenant context with tenant id \<open>T\<close> is to touch rows of
  tenant \<open>T\<close> only; \<open>joinEvaluation\<close> and \<open>submitFeedback\<close>, given the id of an
  evaluation of another tenant, are not to find it. Their lookups filter on the id and
  the status only, so they do find it: the tester of tenant \<open>A\<close> joins evaluation
  \<open>eB1\<close> of tenant \<open>B\<close>, which inserts a participation row for it, and then submits
  feedback, which inserts a response to its question \<open>qB1\<close> and completes the
  participation.
\<close>

theorem cross_tenant_join_and_feedback:
  "tenantId testerA = ''A''
   \<and> map ev_accountId (filter (\<lambda>e. ev_id e = ''eB1'') (evaluations demo_db)) = [''B'']
   \<and> joinEvaluation 1000 testerA ''eB1'' demo_db =
       (Inr (),
        demo_db\<lparr>evaluationParticipants :=
          [\<lparr>ep_evaluationId = ''eB1'', ep_userId = ''uA2'', ep_status = ParticipantStatus.PENDING,
            ep_joinedAt = 1000, ep_completedAt = None, ep_rejectedAt = None\<rparr>]\<rparr>)
   \<and> submitFeedback calm testerA ''eB1''
         [\<lparr>sr_questionId = ''qB1'', sr_answer = BoolAnswer True\<rparr>]
         (snd (joinEvaluation 1000 testerA ''eB1'' demo_db)) =
       (Inr (),
        demo_db\<lparr>evaluationParticipants :=
          [\<lparr>ep_evaluationId = ''eB1'', ep_userId = ''uA2'', ep_status = ParticipantStatus.ACCEPTED,
            ep_joinedAt = 1000, ep_completedAt = Some 2000, ep_rejectedAt = None\<rparr>],
          evaluationResponses :=
          [\<lparr>r_questionId = ''qB1'', r_userId = ''uA2'', r_answer = BoolAnswer True,
            r_submittedAt = 2000\<rparr>]\<rparr>)"
  by (simp add: joinEvaluation_def submitFeedback_def submitFeedback_tx_def transaction_def
        update_where_def new_participant_def demo_db_def testerA_def calm_def Let_def)

subsection \<open>Feedback submission\<close>

text \<open>
  C2. For a tester who has joined the evaluation, has not completed it, and whose
  evaluation is found Active: when some response names a question id outside the
  evaluation's question set, \<open>submitFeedback\<close> throws a BadRequest whose message names
  such an id, and the store is as before (no response row, participation untouched).
  When every id belongs and the store takes both writes, all answer rows are inserted
  and the participation gets \<open>completedAt\<close> and status Accepted. When every id belongs
  and the store rejects \<open>createMany\<close>, or takes the responses and then rejects the update
  of the participation, the call throws the store's error and the store is as before:
  the responses already inserted are taken back. Whenever the call throws, the store is
  as before.
\<close>

theorem submitFeedback_all_or_nothing:
  assumes tester: "role context = TESTER"
    and joined: "find (\<lambda>p. ep_evaluationId p = evaluationId \<and> ep_userId p = userId context)
                      (evaluationParticipants s) = Some participation"
    and pending: "ep_completedAt participation = None"
    and active: "find (\<lambda>e. ev_id e = evaluationId \<and> ev_status e = ACTIVE) (evaluations s)
                   = Some evaluation"
  shows
    "((\<exists>r\<in>set responses. sr_questionId r \<notin>
          set (map q_id (filter (\<lambda>q. q_evaluationId q = evaluationId) (evaluationQuestions s)))) \<longrightarrow>
      (\<exists>r\<in>set responses.
          sr_questionId r \<notin> set (map q_id (filter (\<lambda>q. q_evaluationId q = evaluationId) (evaluationQuestions s))) \<and>
          submitFeedback env context evaluationId responses s =
            (Inl (BadRequestException
                   (''Question '' @ sr_questionId r @ '' does not belong to this evaluation'')), s)))
   \<and> ((\<forall>r\<in>set responses. sr_questionId r \<in>
          set (map q_id (filter (\<lambda>q. q_evaluationId q = evaluationId) (evaluationQuestions s)))) \<and>
      fe_createMany env = None \<and> fe_participantUpdate env = None \<longrightarrow>
      submitFeedback env context evaluationId responses s =
        (Inr (),
         s\<lparr>evaluationResponses :=
              evaluationResponses s @
              map (\<lambda>r. \<lparr>r_questionId = sr_questionId r, r_userId = userId context,
                        r_answer = sr_answer r, r_submittedAt = fe_now env\<rparr>) responses,
           evaluationParticipants :=
              map (\<lambda>p. if ep_evaluationId p = evaluationId \<and> ep_userId p = userId context
                        then p\<lparr>ep_completedAt := Some (fe_now env),
                               ep_status := ParticipantStatus.ACCEPTED\<rparr>
                        else p)
                  (evaluationParticipants s)\<rparr>))
   \<and> (\<forall>e. (\<forall>r\<in>set responses. sr_questionId r \<in>
          set (map q_id (filter (\<lambda>q. q_evaluationId q = evaluationId) (evaluationQuestions s)))) \<and>
      fe_createMany env = Some e \<longrightarrow>
      submitFeedback env context evaluationId responses s = (Inl e, s))
   \<and> (\<forall>e. (\<forall>r\<in>set responses. sr_questionId r \<in>
          set (map q_id (filter (\<lambda>q. q_evaluationId q = evaluationId) (evaluationQuestions s)))) \<and>
      fe_createMany env = None \<and> fe_participantUpdate env = Some e \<longrightarrow>
      submitFeedback env context evaluationId responses s = (Inl e, s))
   \<and> (\<forall>e. fst (submitFeedback env context evaluationId responses s) = Inl e \<longrightarrow>
           snd (submitFeedback env context evaluationId responses s) = s)"
proof (intro conjI impI allI)
  let ?qids = "map q_id (filter (\<lambda>q. q_evaluationId q = ev_id evaluation) (evaluationQuestions s))"
  let ?QS = "set (map q_id (filter (\<lambda>q. q_evaluationId q = evaluationId) (evaluationQuestions s)))"
  have qs: "set ?qids = ?QS"
    using active by (rule questionIds_set)
  have unfold: "submitFeedback env context evaluationId responses s =
      (case validateQuestionIds ?qids responses of
         Some e \<Rightarrow> (Inl e, s)
       | None \<Rightarrow> transaction (submitFeedback_tx env context evaluationId responses) s)"
    using tester joined pending active by (simp add: submitFeedback_def Let_def)
  have valid: "validateQuestionIds ?qids responses = None"
    if "\<forall>r\<in>set responses. sr_questionId r \<in> ?QS"
    using that unfolding qs [symmetric] by (simp only: validateQuestionIds_None)
  {
    assume "\<exists>r\<in>set responses. sr_questionId r \<notin> ?QS"
    then have "\<exists>r\<in>set responses. sr_questionId r \<notin> set ?qids"
      unfolding qs .
    then obtain r where r: "r \<in> set responses" "sr_questionId r \<notin> set ?qids"
      "validateQuestionIds ?qids responses =
         Some (BadRequestException
                (''Question '' @ sr_questionId r @ '' does not belong to this evaluation''))"
      using validateQuestionIds_Some [of responses ?qids] by blast
    from r(2) have "sr_questionId r \<notin> ?QS"
      unfolding qs .
    with r(1) r(3) show "\<exists>r\<in>set responses. sr_questionId r \<notin> ?QS \<and>
          submitFeedback env context evaluationId responses s =
            (Inl (BadRequestException
                   (''Question '' @ sr_questionId r @ '' does not belong to this evaluation'')), s)"
      unfolding unfold by (intro bexI [of _ r]) simp_all
  }
  {
    assume h: "(\<forall>r\<in>set responses. sr_questionId r \<in> ?QS) \<and>
      fe_createMany env = None \<and> fe_participantUpdate env = None"
    have "update_where
            (\<lambda>p. ep_evaluationId p = evaluationId \<and> ep_userId p = userId context)
            (\<lambda>p. p\<lparr>ep_completedAt := Some (fe_now env), ep_status := ParticipantStatus.ACCEPTED\<rparr>)
            (evaluationParticipants s)
          = Inr (map (\<lambda>p. if ep_evaluationId p = evaluationId \<and> ep_userId p = userId context
                        then p\<lparr>ep_completedAt := Some (fe_now env),
                               ep_status := ParticipantStatus.ACCEPTED\<rparr>
                        else p) (evaluationParticipants s))"
      using joined by (rule update_where_found)
    with h valid show "submitFeedback env context evaluationId responses s =
        (Inr (),
         s\<lparr>evaluationResponses :=
              evaluationResponses s @
              map (\<lambda>r. \<lparr>r_questionId = sr_questionId r, r_userId = userId context,
                        r_answer = sr_answer r, r_submittedAt = fe_now env\<rparr>) responses,
           evaluationParticipants :=
              map (\<lambda>p. if ep_evaluationId p = evaluationId \<and> ep_userId p = userId context
                        then p\<lparr>ep_completedAt := Some (fe_now env),
                               ep_status := ParticipantStatus.ACCEPTED\<rparr>
                        else p)
                  (evaluationParticipants s)\<rparr>)"
      unfolding unfold by (simp add: transaction_def submitFeedback_tx_def Let_def)
  }
  {
    fix e
    assume h: "(\<forall>r\<in>set responses. sr_questionId r \<in> ?QS) \<and> fe_createMany env = Some e"
    with valid show "submitFeedback env context evaluationId responses s = (Inl e, s)"
      unfolding unfold by (simp add: transaction_def submitFeedback_tx_def)
  }
  {
    fix e
    assume h: "(\<forall>r\<in>set responses. sr_questionId r \<in> ?QS) \<and>
      fe_createMany env = None \<and> fe_participantUpdate env = Some e"
    with valid show "submitFeedback env context evaluationId responses s = (Inl e, s)"
      unfolding unfold by (simp add: transaction_def submitFeedback_tx_leaves_responses)
  }
  {
    fix e
    assume "fst (submitFeedback env context evaluationId responses s) = Inl e"
    then show "snd (submitFeedback env context evaluationId responses s) = s"
      by (rule submitFeedback_failure_keeps_store)
  }
qed

theorem submitFeedback_all_or_nothing_witness:
  "submitFeedback calm testerA ''eA1''
      [\<lparr>sr_questionId = ''qA1'', sr_answer = BoolAnswer True\<rparr>,
       \<lparr>sr_questionId = ''qB1'', sr_answer = NumberAnswer 4\<rparr>] joined_db =
     (Inl (BadRequestException ''Question qB1 does not belong to this evaluation''), joined_db)
   \<and> submitFeedback calm testerA ''eA1''
      [\<lparr>sr_questionId = ''qA1'', sr_answer = BoolAnswer True\<rparr>,
       \<lparr>sr_questionId = ''qA2'', sr_answer = NumberAnswer 4\<rparr>] joined_db =
     (Inr (),
      joined_db\<lparr>evaluationResponses :=
          evaluationResponses joined_db @
          map (\<lambda>r. \<lparr>r_questionId = sr_questionId r, r_userId = userId testerA,
                    r_answer = sr_answer r, r_submittedAt = fe_now calm\<rparr>)
            [\<lparr>sr_questionId = ''qA1'', sr_answer = BoolAnswer True\<rparr>,
             \<lparr>sr_questionId = ''qA2'', sr_answer = NumberAnswer 4\<rparr>],
        evaluationParticipants :=
          map (\<lambda>p. if ep_evaluationId p = ''eA1'' \<and> ep_userId p = userId testerA
                    then p\<lparr>ep_completedAt := Some (fe_now calm),
                           ep_status := ParticipantStatus.ACCEPTED\<rparr>
                    else p)
              (evaluationParticipants joined_db)\<rparr>)
   \<and> submitFeedback update_lost testerA ''eA1''
      [\<lparr>sr_questionId = ''qA1'', sr_answer = BoolAnswer True\<rparr>,
       \<lparr>sr_questionId = ''qA2'', sr_answer = NumberAnswer 4\<rparr>] joined_db =
     (Inl (StoreError ''Connection lost''), joined_db)
   \<and> submitFeedback \<lparr>fe_now = 2000, fe_createMany = Some (StoreError ''Connection lost''),
                       fe_participantUpdate = None\<rparr> testerA ''eA1''
      [\<lparr>sr_questionId = ''qA1'', sr_answer = BoolAnswer True\<rparr>,
       \<lparr>sr_questionId = ''qA2'', sr_answer = NumberAnswer 4\<rparr>] joined_db =
     (Inl (StoreError ''Connection lost''), joined_db)
   \<and> evaluationResponses joined_db = []
   \<and> evaluationResponses
        (snd (submitFeedback_tx update_lost testerA ''eA1''
               [\<lparr>sr_questionId = ''qA1'', sr_answer = BoolAnswer True\<rparr>,
                \<lparr>sr_questionId = ''qA2'', sr_answer = NumberAnswer 4\<rparr>] joined_db)) =
       [\<lparr>r_questionId = ''qA1'', r_userId = ''uA2'', r_answer = BoolAnswer True,
         r_submittedAt = 2000\<rparr>,
        \<lparr>r_questionId = ''qA2'', r_userId = ''uA2'', r_answer = NumberAnswer 4,
         r_submittedAt = 2000\<rparr>]"
proof -
  let ?bad = "[\<lparr>sr_questionId = ''qA1'', sr_answer = BoolAnswer True\<rparr>,
               \<lparr>sr_questionId = ''qB1'', sr_answer = NumberAnswer 4\<rparr>]"
  let ?good = "[\<lparr>sr_questionId = ''qA1'', sr_answer = BoolAnswer True\<rparr>,
                \<lparr>sr_questionId = ''qA2'', sr_answer = NumberAnswer 4\<rparr>]"
  have jd: "joined_db = demo_db\<lparr>evaluationParticipants :=
        [\<lparr>ep_evaluationId = ''eA1'', ep_userId = ''uA2'', ep_status = ParticipantStatus.PENDING,
          ep_joinedAt = 1000, ep_completedAt = None, ep_rejectedAt = None\<rparr>]\<rparr>"
    by (simp add: joinEvaluation_def new_participant_def demo_db_def joined_db_def testerA_def)
  have tester: "role testerA = TESTER"
    by (simp add: testerA_def)
  have joined: "find (\<lambda>p. ep_evaluationId p = ''eA1'' \<and> ep_userId p = userId testerA)
             (evaluationParticipants joined_db)
           = Some \<lparr>ep_evaluationId = ''eA1'', ep_userId = ''uA2'', ep_status = ParticipantStatus.PENDING,
                   ep_joinedAt = 1000, ep_completedAt = None, ep_rejectedAt = None\<rparr>"
    by (simp add: jd testerA_def)
  have pending: "ep_completedAt \<lparr>ep_evaluationId = ''eA1'', ep_userId = ''uA2'',
        ep_status = ParticipantStatus.PENDING, ep_joinedAt = 1000, ep_completedAt = None,
        ep_rejectedAt = None\<rparr> = None"
    by simp
  have active: "find (\<lambda>e. ev_id e = ''eA1'' \<and> ev_status e = ACTIVE) (evaluations joined_db)
           = Some \<lparr>ev_id = ''eA1'', ev_title = ''Onboarding Survey'', ev_status = ACTIVE,
          ev_projectId = ''pA1'', ev_createdById = ''uA1'', ev_accountId = ''A''\<rparr>"
    by (simp add: jd demo_db_def)
  have qs: "set (map q_id (filter (\<lambda>q. q_evaluationId q = ''eA1'') (evaluationQuestions joined_db)))
              = {''qA1'', ''qA2''}"
    by (simp add: jd demo_db_def)
  have bad: "\<exists>r\<in>set ?bad.
               sr_questionId r \<notin> set (map q_id (filter (\<lambda>q. q_evaluationId q = ''eA1'')
                                                   (evaluationQuestions joined_db)))"
    unfolding qs by simp
  have good: "\<forall>r\<in>set ?good.
               sr_questionId r \<in> set (map q_id (filter (\<lambda>q. q_evaluationId q = ''eA1'')
                                                   (evaluationQuestions joined_db)))"
    unfolding qs by simp
  have calm_ok: "fe_createMany calm = None \<and> fe_participantUpdate calm = None"
    by (simp add: calm_def)
  have lost: "fe_createMany update_lost = None \<and>
              fe_participantUpdate update_lost = Some (StoreError ''Connection lost'')"
    by (simp add: update_lost_def)
  note thm_bad = submitFeedback_all_or_nothing [OF tester joined pending active, of ?bad calm]
  note thm_good = submitFeedback_all_or_nothing [OF tester joined pending active, of ?good calm]
  note thm_lost = submitFeedback_all_or_nothing [OF tester joined pending active, of ?good update_lost]
  from thm_bad [THEN conjunct1] bad
  obtain r where r: "r \<in> set ?bad"
     "sr_questionId r \<notin> set (map q_id (filter (\<lambda>q. q_evaluationId q = ''eA1'')
                                                   (evaluationQuestions joined_db)))"
     "submitFeedback calm testerA ''eA1'' ?bad joined_db =
      (Inl (BadRequestException
             (''Question '' @ sr_questionId r @ '' does not belong to this evaluation'')), joined_db)"
    by blast
  from r(1) r(2) have "sr_questionId r = ''qB1''"
    unfolding qs by auto
  with r(3) have first: "submitFeedback calm testerA ''eA1'' ?bad joined_db =
      (Inl (BadRequestException ''Question qB1 does not belong to this evaluation''), joined_db)"
    by simp
  have second: "submitFeedback calm testerA ''eA1'' ?good joined_db =
     (Inr (),
      joined_db\<lparr>evaluationResponses :=
          evaluationResponses joined_db @
          map (\<lambda>r. \<lparr>r_questionId = sr_questionId r, r_userId = userId testerA,
                    r_answer = sr_answer r, r_submittedAt = fe_now calm\<rparr>) ?good,
        evaluationParticipants :=
          map (\<lambda>p. if ep_evaluationId p = ''eA1'' \<and> ep_userId p = userId testerA
                    then p\<lparr>ep_completedAt := Some (fe_now calm),
                           ep_status := ParticipantStatus.ACCEPTED\<rparr>
                    else p)
              (evaluationParticipants joined_db)\<rparr>)"
    using thm_good [THEN conjunct2, THEN conjunct1] good calm_ok by blast
  have third: "submitFeedback update_lost testerA ''eA1'' ?good joined_db =
     (Inl (StoreError ''Connection lost''), joined_db)"
    using thm_lost [THEN conjunct2, THEN conjunct2, THEN conjunct2, THEN conjunct1, rule_format,
                    of "StoreError ''Connection lost''"] good lost by blast
  have fourth: "submitFeedback \<lparr>fe_now = 2000, fe_createMany = Some (StoreError ''Connection lost''),
                       fe_participantUpdate = None\<rparr> testerA ''eA1'' ?good joined_db =
     (Inl (StoreError ''Connection lost''), joined_db)"
    using submitFeedback_all_or_nothing [OF tester joined pending active, of ?good
            "\<lparr>fe_now = 2000, fe_createMany = Some (StoreError ''Connection lost''),
              fe_participantUpdate = None\<rparr>",
            THEN conjunct2, THEN conjunct2, THEN conjunct1, rule_format,
            of "StoreError ''Connection lost''"] good
    by simp
  have empty: "evaluationResponses joined_db = []"
    by (simp add: jd demo_db_def)
  have partial: "evaluationResponses
        (snd (submitFeedback_tx update_lost testerA ''eA1'' ?good joined_db)) =
       [\<lparr>r_questionId = ''qA1'', r_userId = ''uA2'', r_answer = BoolAnswer True,
         r_submittedAt = 2000\<rparr>,
        \<lparr>r_questionId = ''qA2'', r_userId = ''uA2'', r_answer = NumberAnswer 4,
         r_submittedAt = 2000\<rparr>]"
    by (simp add: submitFeedback_tx_def update_lost_def empty testerA_def)
  from first second third fourth empty partial show ?thesis
    by blast
qed

subsection \<open>The write block for members\<close>

text \<open>
  C3. A request whose authenticated user has role MEMBER and whose method is POST, PUT,
  PATCH or DELETE is refused by the guard with a Forbidden error; the guard takes nothing
  but the request (no route, no permission table), and every other request (another role,
  no user, another method) passes it.
\<close>

theorem member_write_block:
  "(map_option au_role (req_user req) = Some MEMBER \<and>
      req_method req \<in> {''POST'', ''PUT'', ''PATCH'', ''DELETE''}
      \<longrightarrow> canActivate req =
            Inl (ForbiddenException ''MEMBER role is not authorized to perform write operations''))
   \<and> (map_option au_role (req_user req) \<noteq> Some MEMBER \<or>
      req_method req \<notin> {''POST'', ''PUT'', ''PATCH'', ''DELETE''}
      \<longrightarrow> canActivate req = Inr True)"
  by (auto simp: canActivate_def writeMethods_def)

theorem member_write_block_witness:
  "canActivate \<lparr>req_user = Some \<lparr>au_id = ''u1'', au_supabaseId = ''s1'', au_email = ''m@x.com'',
                                  au_role = MEMBER, au_accountId = ''A''\<rparr>,
                 req_method = ''DELETE''\<rparr>
     = Inl (ForbiddenException ''MEMBER role is not authorized to perform write operations'')
   \<and> canActivate \<lparr>req_user = Some \<lparr>au_id = ''u1'', au_supabaseId = ''s1'', au_email = ''m@x.com'',
                                  au_role = MEMBER, au_accountId = ''A''\<rparr>,
                 req_method = ''GET''\<rparr> = Inr True"
  using member_write_block [of "\<lparr>req_user = Some \<lparr>au_id = ''u1'', au_supabaseId = ''s1'',
            au_email = ''m@x.com'', au_role = MEMBER, au_accountId = ''A''\<rparr>, req_method = ''DELETE''\<rparr>"]
        member_write_block [of "\<lparr>req_user = Some \<lparr>au_id = ''u1'', au_supabaseId = ''s1'',
            au_email = ''m@x.com'', au_role = MEMBER, au_accountId = ''A''\<rparr>, req_method = ''GET''\<rparr>"]
  by simp

subsection \<open>Joining an evaluation\<close>

text \<open>
  C4, as stated, has the second join of the same (evaluation, user) pair fail with a
  Conflict. It fails with a BadRequest: here tester \<open>uA2\<close> joins \<open>eA1\<close> again, and the
  store keeps its single participation row.
\<close>

theorem rejoin_is_bad_request:
  "joinEvaluation 2000 testerA ''eA1'' joined_db =
     (Inl (BadRequestException ''Already joined this evaluation''), joined_db)
   \<and> evaluationParticipants joined_db =
     [\<lparr>ep_evaluationId = ''eA1'', ep_userId = ''uA2'', ep_status = ParticipantStatus.PENDING,
       ep_joinedAt = 1000, ep_completedAt = None, ep_rejectedAt = None\<rparr>]"
  by (simp add: joinEvaluation_def new_participant_def demo_db_def joined_db_def testerA_def)

text \<open>
  C4, amended. For a tester: when an Active evaluation with the id exists and the pair
  (evaluation, user) has no participation row, \<open>joinEvaluation\<close> inserts a Pending row
  for it, and a second \<open>joinEvaluation\<close> for the pair throws a BadRequest (\<open>Already joined this evaluation\<close>) and leaves the store as it is; when no Active evaluation has the id,
  it throws NotFound.
\<close>

theorem join_then_rejoin:
  assumes tester: "role context = TESTER"
  shows "((\<exists>e\<in>set (evaluations s). ev_id e = evaluationId \<and> ev_status e = ACTIVE) \<and>
          (\<forall>p\<in>set (evaluationParticipants s).
              \<not> (ep_evaluationId p = evaluationId \<and> ep_userId p = userId context))
          \<longrightarrow> joinEvaluation now context evaluationId s =
                (Inr (), s\<lparr>evaluationParticipants := evaluationParticipants s @
                   [\<lparr>ep_evaluationId = evaluationId, ep_userId = userId context,
                     ep_status = ParticipantStatus.PENDING, ep_joinedAt = now,
                     ep_completedAt = None, ep_rejectedAt = None\<rparr>]\<rparr>)
              \<and> joinEvaluation now' context evaluationId
                   (snd (joinEvaluation now context evaluationId s)) =
                (Inl (BadRequestException ''Already joined this evaluation''),
                 snd (joinEvaluation now context evaluationId s)))
       \<and> ((\<forall>e\<in>set (evaluations s). \<not> (ev_id e = evaluationId \<and> ev_status e = ACTIVE))
          \<longrightarrow> joinEvaluation now context evaluationId s =
                (Inl (NotFoundException ''Active evaluation not found''), s))"
proof (intro conjI impI)
  assume h: "(\<exists>e\<in>set (evaluations s). ev_id e = evaluationId \<and> ev_status e = ACTIVE) \<and>
          (\<forall>p\<in>set (evaluationParticipants s).
              \<not> (ep_evaluationId p = evaluationId \<and> ep_userId p = userId context))"
  from h obtain ev where ev: "find (\<lambda>e. ev_id e = evaluationId \<and> ev_status e = ACTIVE) (evaluations s) = Some ev"
    using find_Some_set [of "evaluations s" "\<lambda>e. ev_id e = evaluationId \<and> ev_status e = ACTIVE"] by blast
  from h have np: "find (\<lambda>p. ep_evaluationId p = evaluationId \<and> ep_userId p = userId context)
                       (evaluationParticipants s) = None"
    by (simp add: find_None_set)
  show first: "joinEvaluation now context evaluationId s =
                (Inr (), s\<lparr>evaluationParticipants := evaluationParticipants s @
                   [\<lparr>ep_evaluationId = evaluationId, ep_userId = userId context,
                     ep_status = ParticipantStatus.PENDING, ep_joinedAt = now,
                     ep_completedAt = None, ep_rejectedAt = None\<rparr>]\<rparr>)"
    using tester ev np by (simp add: joinEvaluation_def new_participant_def)
  define s1 where "s1 = s\<lparr>evaluationParticipants := evaluationParticipants s @
                   [\<lparr>ep_evaluationId = evaluationId, ep_userId = userId context,
                     ep_status = ParticipantStatus.PENDING, ep_joinedAt = now,
                     ep_completedAt = None, ep_rejectedAt = None\<rparr>]\<rparr>"
  have "\<exists>y. find (\<lambda>p. ep_evaluationId p = evaluationId \<and> ep_userId p = userId context)
             (evaluationParticipants s1) = Some y"
    using find_Some_set [of "evaluationParticipants s1"
        "\<lambda>p. ep_evaluationId p = evaluationId \<and> ep_userId p = userId context"]
    by (simp add: s1_def) blast
  moreover have "evaluations s1 = evaluations s"
    by (simp add: s1_def)
  ultimately have "joinEvaluation now' context evaluationId s1 =
      (Inl (BadRequestException ''Already joined this evaluation''), s1)"
    using tester ev by (auto simp: joinEvaluation_def)
  then show "joinEvaluation now' context evaluationId
                   (snd (joinEvaluation now context evaluationId s)) =
                (Inl (BadRequestException ''Already joined this evaluation''),
                 snd (joinEvaluation now context evaluationId s))"
    by (simp add: first s1_def)
next
  assume "\<forall>e\<in>set (evaluations s). \<not> (ev_id e = evaluationId \<and> ev_status e = ACTIVE)"
  then have "find (\<lambda>e. ev_id e = evaluationId \<and> ev_status e = ACTIVE) (evaluations s) = None"
    by (simp add: find_None_set)
  then show "joinEvaluation now context evaluationId s =
                (Inl (NotFoundException ''Active evaluation not found''), s)"
    using tester by (simp add: joinEvaluation_def)
qed

theorem join_then_rejoin_witness:
  "joinEvaluation 1000 testerA ''eA1'' demo_db =
     (Inr (), demo_db\<lparr>evaluationParticipants := evaluationParticipants demo_db @
        [\<lparr>ep_evaluationId = ''eA1'', ep_userId = userId testerA,
          ep_status = ParticipantStatus.PENDING, ep_joinedAt = 1000,
          ep_completedAt = None, ep_rejectedAt = None\<rparr>]\<rparr>)
   \<and> joinEvaluation 2000 testerA ''eA1'' (snd (joinEvaluation 1000 testerA ''eA1'' demo_db)) =
     (Inl (BadRequestException ''Already joined this evaluation''),
      snd (joinEvaluation 1000 testerA ''eA1'' demo_db))
   \<and> joinEvaluation 1000 testerA ''eA2'' demo_db =
     (Inl (NotFoundException ''Active evaluation not found''), demo_db)"
proof -
  have tester: "role testerA = TESTER"
    by (simp add: testerA_def)
  have active: "\<exists>e\<in>set (evaluations demo_db). ev_id e = ''eA1'' \<and> ev_status e = ACTIVE"
    by (simp add: demo_db_def)
  have fresh: "\<forall>p\<in>set (evaluationParticipants demo_db).
                 \<not> (ep_evaluationId p = ''eA1'' \<and> ep_userId p = userId testerA)"
    by (simp add: demo_db_def)
  have draft: "\<forall>e\<in>set (evaluations demo_db). \<not> (ev_id e = ''eA2'' \<and> ev_status e = ACTIVE)"
    by (simp add: demo_db_def)
  show ?thesis
    using join_then_rejoin [OF tester, of demo_db "''eA1''" 1000 2000]
          join_then_rejoin [OF tester, of demo_db "''eA2''" 1000 2000]
          active fresh draft
    by blast
qed

subsection \<open>Expired invitations\<close>

text \<open>
  C5. Let the token find a Pending invitation. If its expiry lies before the time of the
  read, \<open>validateToken\<close> and \<open>acceptInvitation\<close> each set its status to Expired and
  throw \<open>Invitation has expired\<close>. In the store so left, every \<open>acceptInvitation\<close> with
  the token, at whatever time and with whatever identity provider, throws
  \<open>Invitation has already been expired\<close> and changes nothing.
\<close>

theorem expired_invitation_read:
  assumes found: "find (\<lambda>i. inv_token i = token) (invitations s) = Some invitation"
      and pending: "inv_status invitation = InvitationStatus.PENDING"
  shows
    "(inv_expiresAt invitation < now \<longrightarrow>
        validateToken now token s =
          (Inl (BadRequestException ''Invitation has expired''),
           s\<lparr>invitations := mark_expired (inv_id invitation) (invitations s)\<rparr>))
     \<and> (inv_expiresAt invitation < ae_now env \<and> ai_token dto = token \<longrightarrow>
        acceptInvitation env dto s =
          (Inl (BadRequestException ''Invitation has expired''),
           s\<lparr>invitations := mark_expired (inv_id invitation) (invitations s)\<rparr>))
     \<and> (ai_token dto' = token \<longrightarrow>
        acceptInvitation env' dto' (s\<lparr>invitations := mark_expired (inv_id invitation) (invitations s)\<rparr>) =
          (Inl (BadRequestException ''Invitation has already been expired''),
           s\<lparr>invitations := mark_expired (inv_id invitation) (invitations s)\<rparr>))"
proof (intro conjI impI)
  have upd: "update_where (\<lambda>i. inv_id i = inv_id invitation) (\<lambda>i. i\<lparr>inv_status := EXPIRED\<rparr>)
               (invitations s) = Inr (mark_expired (inv_id invitation) (invitations s))"
    using found
    by (auto simp: update_where_def mark_expired_def list_ex_iff dest!: find_Some_holds)
  show "validateToken now token s =
          (Inl (BadRequestException ''Invitation has expired''),
           s\<lparr>invitations := mark_expired (inv_id invitation) (invitations s)\<rparr>)"
    if "inv_expiresAt invitation < now"
    using that found pending upd by (simp add: validateToken_def)
  show "acceptInvitation env dto s =
          (Inl (BadRequestException ''Invitation has expired''),
           s\<lparr>invitations := mark_expired (inv_id invitation) (invitations s)\<rparr>)"
    if "inv_expiresAt invitation < ae_now env \<and> ai_token dto = token"
    using that found pending upd by (simp add: acceptInvitation_def)
  have "find (\<lambda>i. inv_token i = token) (mark_expired (inv_id invitation) (invitations s))
          = Some (invitation\<lparr>inv_status := EXPIRED\<rparr>)"
    using found by (simp add: find_token_mark_expired)
  then show "acceptInvitation env' dto'
          (s\<lparr>invitations := mark_expired (inv_id invitation) (invitations s)\<rparr>) =
          (Inl (BadRequestException ''Invitation has already been expired''),
           s\<lparr>invitations := mark_expired (inv_id invitation) (invitations s)\<rparr>)"
    if "ai_token dto' = token"
    using that by (simp add: acceptInvitation_def toLowerCase_EXPIRED)
qed

theorem expired_invitation_read_witness:
  "validateToken 4000000 ''t1'' invited_db =
     (Inl (BadRequestException ''Invitation has expired''),
      invited_db\<lparr>invitations := mark_expired ''i1'' (invitations invited_db)\<rparr>)
   \<and> acceptInvitation \<lparr>ae_now = 4000000, ae_newId = ''uN'', ae_signUp = (\<lambda>e p r a. Inr ''sN'')\<rparr>
        \<lparr>ai_token = ''t1'', ai_password = ''secret''\<rparr> invited_db =
     (Inl (BadRequestException ''Invitation has expired''),
      invited_db\<lparr>invitations := mark_expired ''i1'' (invitations invited_db)\<rparr>)
   \<and> acceptInvitation \<lparr>ae_now = 5000000, ae_newId = ''uN'', ae_signUp = (\<lambda>e p r a. Inr ''sN'')\<rparr>
        \<lparr>ai_token = ''t1'', ai_password = ''secret''\<rparr>
        (invited_db\<lparr>invitations := mark_expired ''i1'' (invitations invited_db)\<rparr>) =
     (Inl (BadRequestException ''Invitation has already been expired''),
      invited_db\<lparr>invitations := mark_expired ''i1'' (invitations invited_db)\<rparr>)"
proof -
  have found: "find (\<lambda>i. inv_token i = ''t1'') (invitations invited_db) =
      Some \<lparr>inv_id = ''i1'', inv_email = ''new@x.com'', inv_token = ''t1'', inv_role = MEMBER,
        inv_accountId = ''A'', inv_invitedById = ''uA1'', inv_status = InvitationStatus.PENDING,
        inv_expiresAt = 3600000, inv_acceptedAt = None\<rparr>"
    by (simp add: invited_db_eq)
  have pending: "inv_status \<lparr>inv_id = ''i1'', inv_email = ''new@x.com'', inv_token = ''t1'',
        inv_role = MEMBER, inv_accountId = ''A'', inv_invitedById = ''uA1'',
        inv_status = InvitationStatus.PENDING, inv_expiresAt = 3600000, inv_acceptedAt = None\<rparr>
      = InvitationStatus.PENDING"
    by simp
  show ?thesis
    using expired_invitation_read [OF found pending, of 4000000
        "\<lparr>ae_now = 4000000, ae_newId = ''uN'', ae_signUp = (\<lambda>e p r a. Inr ''sN'')\<rparr>"
        "\<lparr>ai_token = ''t1'', ai_password = ''secret''\<rparr>"
        "\<lparr>ai_token = ''t1'', ai_password = ''secret''\<rparr>"
        "\<lparr>ae_now = 5000000, ae_newId = ''uN'', ae_signUp = (\<lambda>e p r a. Inr ''sN'')\<rparr>"]
    by simp
qed

subsection \<open>Sending an invitation\<close>

text \<open>
  C6. \<open>sendInvite\<close> is to fail with a Conflict when an unexpired Pending invitation
  exists for the email and tenant. The code means to (its message is \<open>An active
  invitation already exists for this email\<close>), but its lookup takes one Pending
  invitation of the pair and examines that one only. After the history of \<open>resent_db\<close>
  the pair has two Pending invitations; at time 7450000 the first (expiry 7400000) has
  expired and the second (expiry 7500000) has not. \<open>sendInvite\<close> goes through: it expires
  the first and inserts a third, so that the pair now has two unexpired Pending
  invitations, \<open>i2\<close> and \<open>i3\<close>.
\<close>

theorem sendInvite_overlooks_unexpired_pending:
  "invitations resent_db =
      [\<lparr>inv_id = ''i1'', inv_email = ''new@x.com'', inv_token = ''t3'', inv_role = MEMBER,
        inv_accountId = ''A'', inv_invitedById = ''uA1'', inv_status = InvitationStatus.PENDING,
        inv_expiresAt = 7400000, inv_acceptedAt = None\<rparr>,
       \<lparr>inv_id = ''i2'', inv_email = ''new@x.com'', inv_token = ''t4'', inv_role = MEMBER,
        inv_accountId = ''A'', inv_invitedById = ''uA1'', inv_status = InvitationStatus.PENDING,
        inv_expiresAt = 7500000, inv_acceptedAt = None\<rparr>]
   \<and> list_ex (\<lambda>i. inv_email i = si_email invite_dto \<and> inv_accountId i = tenantId founderA \<and>
                  inv_status i = InvitationStatus.PENDING \<and> inv_expiresAt i > 7450000)
        (invitations resent_db)
   \<and> sendInvite (env_at 7450000 ''t5'' ''i3'') founderA invite_dto resent_db =
       (Inr \<lparr>is_message = ''Invitation sent successfully'', is_id = ''i3'',
             is_email = ''new@x.com'', is_role = MEMBER, is_expiresAt = 11050000,
             is_inviteLink = ''http://localhost:3000/register?token=t5''\<rparr>,
        resent_db\<lparr>invitations :=
          [\<lparr>inv_id = ''i1'', inv_email = ''new@x.com'', inv_token = ''t3'', inv_role = MEMBER,
            inv_accountId = ''A'', inv_invitedById = ''uA1'', inv_status = EXPIRED,
            inv_expiresAt = 7400000, inv_acceptedAt = None\<rparr>,
           \<lparr>inv_id = ''i2'', inv_email = ''new@x.com'', inv_token = ''t4'', inv_role = MEMBER,
            inv_accountId = ''A'', inv_invitedById = ''uA1'', inv_status = InvitationStatus.PENDING,
            inv_expiresAt = 7500000, inv_acceptedAt = None\<rparr>,
           \<lparr>inv_id = ''i3'', inv_email = ''new@x.com'', inv_token = ''t5'', inv_role = MEMBER,
            inv_accountId = ''A'', inv_invitedById = ''uA1'', inv_status = InvitationStatus.PENDING,
            inv_expiresAt = 11050000, inv_acceptedAt = None\<rparr>]\<rparr>)
   \<and> map inv_id
        (filter (\<lambda>i. inv_email i = si_email invite_dto \<and> inv_accountId i = tenantId founderA \<and>
                      inv_status i = InvitationStatus.PENDING \<and> inv_expiresAt i > 7450000)
           (invitations (snd (sendInvite (env_at 7450000 ''t5'' ''i3'') founderA invite_dto
                                 resent_db)))) = [''i2'', ''i3'']"
  by (simp add: resent_db_eq sendInvite_def sendInvite_create_def new_invitation_def
        update_where_def expirationMinutes_def env_at_def invite_dto_def founderA_def
        demo_db_def Let_def)

text \<open>
  The lookup is a \<open>findFirst\<close> without \<open>orderBy\<close>: which of the two Pending rows it
  returns is the store's choice, here the first stored. Were the same two rows stored the
  other way round, the unexpired one would be found and the call would throw the Conflict.
\<close>

lemma sendInvite_other_order_conflicts:
  "sendInvite (env_at 7450000 ''t5'' ''i3'') founderA invite_dto
      (resent_db\<lparr>invitations := rev (invitations resent_db)\<rparr>) =
     (Inl (ConflictException
            ''An active invitation already exists for this email. Please wait for it to expire or revoke it.''),
      resent_db\<lparr>invitations := rev (invitations resent_db)\<rparr>)"
  by (simp add: resent_db_eq sendInvite_def env_at_def invite_dto_def founderA_def demo_db_def)

text \<open>
  Where the Pending invitations of the pair agree, \<open>sendInvite\<close> does what C6 says: it
  is for founders only; it throws a Conflict when a user with the email exists in the
  caller's tenant, and when the pair has Pending invitations that all expire after the
  current time; when the pair has Pending invitations and none expires after the current
  time, one of them is set to Expired and a new invitation is stored; when the pair has
  none, a new invitation is stored. The new invitation is Pending, carries the generated
  token and expires 60 minutes after the current time.
\<close>

lemma sendInvite_where_claim_holds:
  "(role context \<noteq> FOUNDER \<longrightarrow>
      sendInvite env context dto s =
        (Inl (ForbiddenException ''Only FOUNDERs can manage invitations''), s))
   \<and> (role context = FOUNDER \<and>
      (\<exists>u\<in>set (users s). u_email u = si_email dto \<and> u_accountId u = tenantId context) \<longrightarrow>
      sendInvite env context dto s =
        (Inl (ConflictException ''User with this email already exists in your organization''), s))
   \<and> (role context = FOUNDER \<and>
      (\<forall>u\<in>set (users s). \<not> (u_email u = si_email dto \<and> u_accountId u = tenantId context)) \<and>
      (\<exists>i\<in>set (invitations s). inv_email i = si_email dto \<and> inv_accountId i = tenantId context \<and>
                 inv_status i = InvitationStatus.PENDING) \<and>
      (\<forall>i\<in>set (invitations s). inv_email i = si_email dto \<and> inv_accountId i = tenantId context \<and>
                 inv_status i = InvitationStatus.PENDING \<longrightarrow> inv_expiresAt i > ie_now env) \<longrightarrow>
      sendInvite env context dto s =
        (Inl (ConflictException
               ''An active invitation already exists for this email. Please wait for it to expire or revoke it.''),
         s))
   \<and> (role context = FOUNDER \<and>
      (\<forall>u\<in>set (users s). \<not> (u_email u = si_email dto \<and> u_accountId u = tenantId context)) \<and>
      (\<exists>i\<in>set (invitations s). inv_email i = si_email dto \<and> inv_accountId i = tenantId context \<and>
                 inv_status i = InvitationStatus.PENDING) \<and>
      (\<forall>i\<in>set (invitations s). inv_email i = si_email dto \<and> inv_accountId i = tenantId context \<and>
                 inv_status i = InvitationStatus.PENDING \<longrightarrow> inv_expiresAt i \<le> ie_now env) \<longrightarrow>
      (\<exists>existing\<in>set (invitations s).
         inv_email existing = si_email dto \<and> inv_accountId existing = tenantId context \<and>
         inv_status existing = InvitationStatus.PENDING \<and>
         sendInvite env context dto s =
          (Inr \<lparr>is_message = ''Invitation sent successfully'', is_id = ie_newId env,
                is_email = si_email dto,
                is_role = (if si_role dto = Some ''TESTER'' then TESTER else MEMBER),
                is_expiresAt = ie_now env + 60 * 60 * 1000,
                is_inviteLink = ie_appUrl env @ ''/register?token='' @ ie_randomUUID env\<rparr>,
           s\<lparr>invitations :=
               mark_expired (inv_id existing) (invitations s) @
               [\<lparr>inv_id = ie_newId env, inv_email = si_email dto, inv_token = ie_randomUUID env,
                 inv_role = (if si_role dto = Some ''TESTER'' then TESTER else MEMBER),
                 inv_accountId = tenantId context, inv_invitedById = userId context,
                 inv_status = InvitationStatus.PENDING,
                 inv_expiresAt = ie_now env + 60 * 60 * 1000, inv_acceptedAt = None\<rparr>]\<rparr>)))
   \<and> (role context = FOUNDER \<and>
      (\<forall>u\<in>set (users s). \<not> (u_email u = si_email dto \<and> u_accountId u = tenantId context)) \<and>
      (\<forall>i\<in>set (invitations s). \<not> (inv_email i = si_email dto \<and> inv_accountId i = tenantId context \<and>
                 inv_status i = InvitationStatus.PENDING)) \<longrightarrow>
      sendInvite env context dto s =
        (Inr \<lparr>is_message = ''Invitation sent successfully'', is_id = ie_newId env,
              is_email = si_email dto,
              is_role = (if si_role dto = Some ''TESTER'' then TESTER else MEMBER),
              is_expiresAt = ie_now env + 60 * 60 * 1000,
              is_inviteLink = ie_appUrl env @ ''/register?token='' @ ie_randomUUID env\<rparr>,
         s\<lparr>invitations :=
             invitations s @
             [\<lparr>inv_id = ie_newId env, inv_email = si_email dto, inv_token = ie_randomUUID env,
               inv_role = (if si_role dto = Some ''TESTER'' then TESTER else MEMBER),
               inv_accountId = tenantId context, inv_invitedById = userId context,
               inv_status = InvitationStatus.PENDING,
               inv_expiresAt = ie_now env + 60 * 60 * 1000, inv_acceptedAt = None\<rparr>]\<rparr>))"
proof (intro conjI impI)
  let ?P = "\<lambda>i. inv_email i = si_email dto \<and> inv_accountId i = tenantId context \<and>
                 inv_status i = InvitationStatus.PENDING"
  show "sendInvite env context dto s =
        (Inl (ForbiddenException ''Only FOUNDERs can manage invitations''), s)"
    if "role context \<noteq> FOUNDER"
    using that by (simp add: sendInvite_def)
  {
    assume h: "role context = FOUNDER \<and>
      (\<exists>u\<in>set (users s). u_email u = si_email dto \<and> u_accountId u = tenantId context)"
    then obtain u where "find (\<lambda>u. u_email u = si_email dto \<and> u_accountId u = tenantId context)
                           (users s) = Some u"
      using find_Some_set [of "users s" "\<lambda>u. u_email u = si_email dto \<and> u_accountId u = tenantId context"]
      by blast
    with h show "sendInvite env context dto s =
        (Inl (ConflictException ''User with this email already exists in your organization''), s)"
      by (simp add: sendInvite_def)
  }
  {
    assume h: "role context = FOUNDER \<and>
      (\<forall>u\<in>set (users s). \<not> (u_email u = si_email dto \<and> u_accountId u = tenantId context)) \<and>
      (\<exists>i\<in>set (invitations s). ?P i) \<and>
      (\<forall>i\<in>set (invitations s). ?P i \<longrightarrow> inv_expiresAt i > ie_now env)"
    then have nouser: "find (\<lambda>u. u_email u = si_email dto \<and> u_accountId u = tenantId context) (users s) = None"
      by (simp add: find_None_set)
    from h obtain existing where ex: "find ?P (invitations s) = Some existing"
        "existing \<in> set (invitations s)" "?P existing"
      using find_Some_set [of "invitations s" ?P] by blast
    with h have "inv_expiresAt existing > ie_now env"
      by blast
    with h nouser ex(1) show "sendInvite env context dto s =
        (Inl (ConflictException
               ''An active invitation already exists for this email. Please wait for it to expire or revoke it.''),
         s)"
      by (simp add: sendInvite_def)
  }
  {
    assume h: "role context = FOUNDER \<and>
      (\<forall>u\<in>set (users s). \<not> (u_email u = si_email dto \<and> u_accountId u = tenantId context)) \<and>
      (\<exists>i\<in>set (invitations s). ?P i) \<and>
      (\<forall>i\<in>set (invitations s). ?P i \<longrightarrow> inv_expiresAt i \<le> ie_now env)"
    then have nouser: "find (\<lambda>u. u_email u = si_email dto \<and> u_accountId u = tenantId context) (users s) = None"
      by (simp add: find_None_set)
    from h obtain existing where ex: "find ?P (invitations s) = Some existing"
        "existing \<in> set (invitations s)" "?P existing"
      using find_Some_set [of "invitations s" ?P] by blast
    with h have late: "inv_expiresAt existing \<le> ie_now env"
      by blast
    have upd: "update_where (\<lambda>i. inv_id i = inv_id existing) (\<lambda>i. i\<lparr>inv_status := EXPIRED\<rparr>)
                 (invitations s) = Inr (mark_expired (inv_id existing) (invitations s))"
      using ex(2)
      by (auto simp: update_where_def mark_expired_def list_ex_iff)
    from h nouser ex(1) late upd have "sendInvite env context dto s =
          (Inr \<lparr>is_message = ''Invitation sent successfully'', is_id = ie_newId env,
                is_email = si_email dto,
                is_role = (if si_role dto = Some ''TESTER'' then TESTER else MEMBER),
                is_expiresAt = ie_now env + 60 * 60 * 1000,
                is_inviteLink = ie_appUrl env @ ''/register?token='' @ ie_randomUUID env\<rparr>,
           s\<lparr>invitations :=
               mark_expired (inv_id existing) (invitations s) @
               [\<lparr>inv_id = ie_newId env, inv_email = si_email dto, inv_token = ie_randomUUID env,
                 inv_role = (if si_role dto = Some ''TESTER'' then TESTER else MEMBER),
                 inv_accountId = tenantId context, inv_invitedById = userId context,
                 inv_status = InvitationStatus.PENDING,
                 inv_expiresAt = ie_now env + 60 * 60 * 1000, inv_acceptedAt = None\<rparr>]\<rparr>)"
      by (simp add: sendInvite_def sendInvite_create_def new_invitation_def expirationMinutes_def
                    Let_def)
    with ex(2) ex(3) show "\<exists>existing\<in>set (invitations s).
         inv_email existing = si_email dto \<and> inv_accountId existing = tenantId context \<and>
         inv_status existing = InvitationStatus.PENDING \<and>
         sendInvite env context dto s =
          (Inr \<lparr>is_message = ''Invitation sent successfully'', is_id = ie_newId env,
                is_email = si_email dto,
                is_role = (if si_role dto = Some ''TESTER'' then TESTER else MEMBER),
                is_expiresAt = ie_now env + 60 * 60 * 1000,
                is_inviteLink = ie_appUrl env @ ''/register?token='' @ ie_randomUUID env\<rparr>,
           s\<lparr>invitations :=
               mark_expired (inv_id existing) (invitations s) @
               [\<lparr>inv_id = ie_newId env, inv_email = si_email dto, inv_token = ie_randomUUID env,
                 inv_role = (if si_role dto = Some ''TESTER'' then TESTER else MEMBER),
                 inv_accountId = tenantId context, inv_invitedById = userId context,
                 inv_status = InvitationStatus.PENDING,
                 inv_expiresAt = ie_now env + 60 * 60 * 1000, inv_acceptedAt = None\<rparr>]\<rparr>)"
      by (intro bexI [of _ existing]) simp_all
  }
  {
    assume h: "role context = FOUNDER \<and>
      (\<forall>u\<in>set (users s). \<not> (u_email u = si_email dto \<and> u_accountId u = tenantId context)) \<and>
      (\<forall>i\<in>set (invitations s). \<not> ?P i)"
    then have nouser: "find (\<lambda>u. u_email u = si_email dto \<and> u_accountId u = tenantId context) (users s) = None"
      by (simp add: find_None_set)
    from h have noinv: "find ?P (invitations s) = None"
      by (simp add: find_None_set)
    from h nouser noinv show "sendInvite env context dto s =
        (Inr \<lparr>is_message = ''Invitation sent successfully'', is_id = ie_newId env,
              is_email = si_email dto,
              is_role = (if si_role dto = Some ''TESTER'' then TESTER else MEMBER),
              is_expiresAt = ie_now env + 60 * 60 * 1000,
              is_inviteLink = ie_appUrl env @ ''/register?token='' @ ie_randomUUID env\<rparr>,
         s\<lparr>invitations :=
             invitations s @
             [\<lparr>inv_id = ie_newId env, inv_email = si_email dto, inv_token = ie_randomUUID env,
               inv_role = (if si_role dto = Some ''TESTER'' then TESTER else MEMBER),
               inv_accountId = tenantId context, inv_invitedById = userId context,
               inv_status = InvitationStatus.PENDING,
               inv_expiresAt = ie_now env + 60 * 60 * 1000, inv_acceptedAt = None\<rparr>]\<rparr>)"
      by (simp add: sendInvite_def sendInvite_create_def new_invitation_def expirationMinutes_def
                    Let_def)
  }
qed

subsection \<open>Get by id\<close>

text \<open>
  C7, as stated, has every get-by-id, \<open>ProjectService.findOne\<close> included, return the
  record whenever one with the id exists in the caller's tenant. Project \<open>pA3\<close> is in
  tenant \<open>A\<close> and soft-deleted: \<open>ProjectService.findOne\<close> does not return it to the
  founder of \<open>A\<close>.
\<close>

theorem findOne_hides_soft_deleted:
  "projectA3 \<in> set (projects demo_db)
   \<and> br_id projectA3 = ''pA3''
   \<and> br_accountId projectA3 = tenantId founderA
   \<and> ProjectService_findOne founderA ''pA3'' demo_db =
       Inl (JsError ''Project with ID pA3 not found or access denied'')"
  by (simp add: ProjectService_findOne_def checkPermission_def ProjectService_permissions_def
        BaseService_permissions_def DEFAULT_PERMISSIONS_def buildRoleScopedWhere_def
        buildTenantWhere_def demo_db_def founderA_def projectA1_def projectA2_def projectA3_def
        projectB1_def)

text \<open>
  C7, amended. \<open>BaseService.findOne\<close>: a caller whose role lacks the \<open>findOne\<close>
  permission gets the Forbidden error of \<open>checkPermission\<close>; a permitted caller gets
  NotFound when no row has the id in the caller's tenant (none at all, or only in other
  tenants), and otherwise a row with that id and tenant. \<open>ProjectService.findOne\<close>
  returns a project with the id exactly when one is visible to the caller (in the
  caller's tenant, not soft-deleted and, for a MEMBER, with a membership row of the
  caller); otherwise it fails.
\<close>

theorem findOne_by_design:
  "(\<forall>e. checkPermission permissions modelName context FindOne = Some e \<longrightarrow>
      BaseService_findOne permissions modelName rows context ident = Inl e)
   \<and> (checkPermission permissions modelName context FindOne = None \<and>
      (\<forall>r\<in>set rows. \<not> (br_id r = ident \<and> br_accountId r = tenantId context)) \<longrightarrow>
      BaseService_findOne permissions modelName rows context ident =
        Inl (NotFoundException (modelName @ '' with ID '' @ ident @ '' not found'')))
   \<and> (checkPermission permissions modelName context FindOne = None \<and>
      (\<exists>r\<in>set rows. br_id r = ident \<and> br_accountId r = tenantId context) \<longrightarrow>
      (\<exists>r\<in>set rows. br_id r = ident \<and> br_accountId r = tenantId context \<and>
          BaseService_findOne permissions modelName rows context ident = Inr r))
   \<and> ((\<exists>p\<in>set (projects s). br_id p = ident \<and> visible_to context s p) \<longrightarrow>
      (\<exists>p\<in>set (projects s). br_id p = ident \<and> visible_to context s p \<and>
          ProjectService_findOne context ident s = Inr (include_detail s p)))
   \<and> ((\<forall>p\<in>set (projects s). \<not> (br_id p = ident \<and> visible_to context s p)) \<longrightarrow>
      isl (ProjectService_findOne context ident s))"
proof (intro conjI allI impI)
  fix e
  assume "checkPermission permissions modelName context FindOne = Some e"
  then show "BaseService_findOne permissions modelName rows context ident = Inl e"
    by (simp add: BaseService_findOne_def)
next
  assume h: "checkPermission permissions modelName context FindOne = None \<and>
      (\<forall>r\<in>set rows. \<not> (br_id r = ident \<and> br_accountId r = tenantId context))"
  then have "find (\<lambda>r. br_id r = ident \<and> buildTenantWhere context r) rows = None"
    by (simp add: find_None_set buildTenantWhere_def)
  with h show "BaseService_findOne permissions modelName rows context ident =
        Inl (NotFoundException (modelName @ '' with ID '' @ ident @ '' not found''))"
    by (simp add: BaseService_findOne_def)
next
  assume h: "checkPermission permissions modelName context FindOne = None \<and>
      (\<exists>r\<in>set rows. br_id r = ident \<and> br_accountId r = tenantId context)"
  then obtain r where r: "find (\<lambda>r. br_id r = ident \<and> buildTenantWhere context r) rows = Some r"
      "r \<in> set rows" "br_id r = ident \<and> buildTenantWhere context r"
    using find_Some_set [of rows "\<lambda>r. br_id r = ident \<and> buildTenantWhere context r"]
    by (auto simp: buildTenantWhere_def)
  with h have "BaseService_findOne permissions modelName rows context ident = Inr r"
    by (simp add: BaseService_findOne_def)
  with r show "\<exists>r\<in>set rows. br_id r = ident \<and> br_accountId r = tenantId context \<and>
          BaseService_findOne permissions modelName rows context ident = Inr r"
    by (auto simp: buildTenantWhere_def)
next
  assume "\<exists>p\<in>set (projects s). br_id p = ident \<and> visible_to context s p"
  then obtain p where p: "find (\<lambda>p. br_id p = ident \<and> visible_to context s p) (projects s) = Some p"
      "p \<in> set (projects s)" "br_id p = ident \<and> visible_to context s p"
    using find_Some_set [of "projects s" "\<lambda>p. br_id p = ident \<and> visible_to context s p"] by blast
  then have "ProjectService_findOne context ident s = Inr (include_detail s p)"
    by (simp add: ProjectService_findOne_def ProjectService_may_read buildRoleScopedWhere_visible)
  with p show "\<exists>p\<in>set (projects s). br_id p = ident \<and> visible_to context s p \<and>
            ProjectService_findOne context ident s = Inr (include_detail s p)"
    by blast
next
  assume "\<forall>p\<in>set (projects s). \<not> (br_id p = ident \<and> visible_to context s p)"
  then have "find (\<lambda>p. br_id p = ident \<and> visible_to context s p) (projects s) = None"
    by (simp add: find_None_set)
  then show "isl (ProjectService_findOne context ident s)"
    by (simp add: ProjectService_findOne_def ProjectService_may_read buildRoleScopedWhere_visible)
qed

theorem findOne_by_design_witness:
  "BaseService_findOne DEFAULT_PERMISSIONS ''project'' (projects demo_db) memberA ''pA1'' =
     Inl (ForbiddenException ''Role MEMBER is not authorized to findOne project'')
   \<and> BaseService_findOne DEFAULT_PERMISSIONS ''project'' (projects demo_db) founderA ''pB1'' =
     Inl (NotFoundException ''project with ID pB1 not found'')
   \<and> BaseService_findOne DEFAULT_PERMISSIONS ''project'' (projects demo_db) founderA ''pA3'' =
     Inr projectA3
   \<and> ProjectService_findOne memberA ''pA1'' demo_db = Inr (include_detail demo_db projectA1)
   \<and> isl (ProjectService_findOne memberA ''pA2'' demo_db)"
proof -
  have denied: "checkPermission DEFAULT_PERMISSIONS ''project'' memberA FindOne =
      Some (ForbiddenException ''Role MEMBER is not authorized to findOne project'')"
    by (simp add: checkPermission_def DEFAULT_PERMISSIONS_def memberA_def)
  have allowed: "checkPermission DEFAULT_PERMISSIONS ''project'' founderA FindOne = None"
    by (simp add: checkPermission_def DEFAULT_PERMISSIONS_def founderA_def)
  have absent: "\<forall>r\<in>set (projects demo_db). \<not> (br_id r = ''pB1'' \<and> br_accountId r = tenantId founderA)"
    by (simp add: demo_db_def founderA_def projectA1_def projectA2_def projectA3_def projectB1_def)
  have present: "\<exists>r\<in>set (projects demo_db). br_id r = ''pA3'' \<and> br_accountId r = tenantId founderA"
    by (simp add: demo_db_def founderA_def projectA1_def projectA2_def projectA3_def projectB1_def)
  have seen: "\<exists>p\<in>set (projects demo_db). br_id p = ''pA1'' \<and> visible_to memberA demo_db p"
    by (simp add: visible_to_def demo_db_def memberA_def projectA1_def)
  have unseen: "\<forall>p\<in>set (projects demo_db). \<not> (br_id p = ''pA2'' \<and> visible_to memberA demo_db p)"
    by (simp add: visible_to_def demo_db_def memberA_def projectA1_def projectA2_def
          projectA3_def projectB1_def)
  have r1: "BaseService_findOne DEFAULT_PERMISSIONS ''project'' (projects demo_db) memberA ''pA1'' =
     Inl (ForbiddenException ''Role MEMBER is not authorized to findOne project'')"
    using findOne_by_design [of DEFAULT_PERMISSIONS "''project''" memberA "projects demo_db" "''pA1''"]
          denied by blast
  have r2: "BaseService_findOne DEFAULT_PERMISSIONS ''project'' (projects demo_db) founderA ''pB1'' =
     Inl (NotFoundException ''project with ID pB1 not found'')"
    using findOne_by_design [of DEFAULT_PERMISSIONS "''project''" founderA "projects demo_db" "''pB1''"]
          allowed absent by simp
  have r3: "BaseService_findOne DEFAULT_PERMISSIONS ''project'' (projects demo_db) founderA ''pA3'' =
     Inr projectA3"
    using findOne_by_design [of DEFAULT_PERMISSIONS "''project''" founderA "projects demo_db" "''pA3''"]
          allowed present demo_project_by_id(3) by metis
  have r4: "ProjectService_findOne memberA ''pA1'' demo_db = Inr (include_detail demo_db projectA1)"
    using findOne_by_design [of DEFAULT_PERMISSIONS "''project''" memberA "projects demo_db" "''pA1''" demo_db]
          seen demo_project_by_id(1) by metis
  have r5: "isl (ProjectService_findOne memberA ''pA2'' demo_db)"
    using findOne_by_design [of DEFAULT_PERMISSIONS "''project''" memberA "projects demo_db" "''pA2''" demo_db]
          unseen by blast
  from r1 r2 r3 r4 r5 show ?thesis by blast
qed

text \<open>
  Where \<open>ProjectService.findOne\<close> fails, what it throws is a plain \<open>Error\<close>, also for an
  id that no project has; \<open>BaseService.findOne\<close>, which it overrides and which
  \<open>update\<close>, \<open>delete\<close> and \<open>softDelete\<close> call through \<open>this.findOne\<close>, documents a
  \<open>NotFoundException\<close>.
\<close>

lemma ProjectService_findOne_failure_kind:
  assumes "\<forall>p\<in>set (projects s). \<not> (br_id p = ident \<and> visible_to context s p)"
  shows "ProjectService_findOne context ident s =
           Inl (JsError (''Project with ID '' @ ident @ '' not found or access denied''))"
proof -
  from assms have "find (\<lambda>p. br_id p = ident \<and> visible_to context s p) (projects s) = None"
    by (simp add: find_None_set)
  then show ?thesis
    by (simp add: ProjectService_findOne_def ProjectService_may_read
          buildRoleScopedWhere_visible)
qed

subsection \<open>Project visibility by role\<close>



subsection \<open>Compensation in signup\<close>

text \<open>
  C9, as stated, has the original failure reach the caller, never an error of the
  cleanup. The cleanup is awaited inside the \<open>catch\<close> block before the rethrow: when the
  identity provider rejects the signup and the store then rejects \<open>account.delete\<close>, the
  caller gets the error of the delete, and the account row stays.
\<close>

theorem signup_cleanup_error_wins:
  "se_signUp (rejecting_env (Some (StoreError ''Connection lost'')))
      (sd_email signup_dto) (sd_password signup_dto) (sd_role signup_dto) ''C''
     = Inl (StoreError ''User already registered'')
   \<and> signup (rejecting_env (Some (StoreError ''Connection lost''))) signup_dto demo_db =
       (Inl (StoreError ''Connection lost''),
        demo_db\<lparr>accounts := accounts demo_db @ [\<lparr>acc_id = ''C'', acc_name = ''Initech''\<rparr>]\<rparr>)"
  by (simp add: signup_def signup_try_def rejecting_env_def signup_dto_def demo_db_def Let_def)

text \<open>
  C9, amended. Let the signup get as far as creating the account (a founder gave an
  account name, the email is unused), and let the identity provider reject the new
  identity or the store reject the new user row, with error \<open>err\<close>. When
  \<open>account.delete\<close> goes through, the caller gets \<open>err\<close> and the store holds no account
  with the new id. When \<open>account.delete\<close> is rejected, the caller gets the error of the
  delete and the new account row stays.
\<close>

theorem signup_compensation:
  assumes named: "\<not> (sd_role dto = FOUNDER \<and>
                      (sd_accountName dto = None \<or> sd_accountName dto = Some []))"
      and unused: "\<forall>u\<in>set (users s). u_email u \<noteq> sd_email dto"
      and failure:
        "se_signUp env (sd_email dto) (sd_password dto) (sd_role dto) (se_newAccountId env) = Inl err
         \<or> (\<exists>sid. se_signUp env (sd_email dto) (sd_password dto) (sd_role dto) (se_newAccountId env)
                    = Inr sid \<and> se_userCreate env = Some err)"
  shows
    "(se_accountDelete env = None \<longrightarrow>
        signup env dto s =
          (Inl err, s\<lparr>accounts := filter (\<lambda>a. acc_id a \<noteq> se_newAccountId env) (accounts s)\<rparr>))
     \<and> (\<forall>cleanupError. se_accountDelete env = Some cleanupError \<longrightarrow>
          (\<exists>n. signup env dto s =
             (Inl cleanupError,
              s\<lparr>accounts := accounts s @ [\<lparr>acc_id = se_newAccountId env, acc_name = n\<rparr>]\<rparr>)))"
proof -
  have nouser: "find (\<lambda>u. u_email u = sd_email dto) (users s) = None"
    using unused by (simp add: find_None_set)
  define acct where "acct = \<lparr>acc_id = se_newAccountId env,
       acc_name = (case sd_accountName dto of
                     None \<Rightarrow> sd_email dto @ [CHR 0x27] @ ''s Account''
                   | Some n \<Rightarrow> if n = [] then sd_email dto @ [CHR 0x27] @ ''s Account'' else n)\<rparr>"
  define s1 where "s1 = s\<lparr>accounts := accounts s @ [acct]\<rparr>"
  have aid: "acc_id acct = se_newAccountId env"
    by (simp add: acct_def)
  have tried: "signup_try env dto acct s1 = (Inl err, s1)"
    using failure by (auto simp: signup_try_def aid)
  have unfold: "signup env dto s =
      (case se_accountDelete env of
         Some cleanupError \<Rightarrow> (Inl cleanupError, s1)
       | None \<Rightarrow> (Inl err, s1\<lparr>accounts := filter (\<lambda>a. acc_id a \<noteq> acc_id acct) (accounts s1)\<rparr>))"
    using named nouser tried
    by (auto simp: signup_def Let_def acct_def [symmetric] s1_def [symmetric])
  show ?thesis
  proof (intro conjI allI impI)
    assume "se_accountDelete env = None"
    then show "signup env dto s =
          (Inl err, s\<lparr>accounts := filter (\<lambda>a. acc_id a \<noteq> se_newAccountId env) (accounts s)\<rparr>)"
      unfolding unfold by (simp add: s1_def aid)
  next
    fix cleanupError
    assume "se_accountDelete env = Some cleanupError"
    then have "signup env dto s =
             (Inl cleanupError,
              s\<lparr>accounts := accounts s @ [\<lparr>acc_id = se_newAccountId env, acc_name = acc_name acct\<rparr>]\<rparr>)"
      unfolding unfold by (simp add: s1_def acct_def)
    then show "\<exists>n. signup env dto s =
             (Inl cleanupError,
              s\<lparr>accounts := accounts s @ [\<lparr>acc_id = se_newAccountId env, acc_name = n\<rparr>]\<rparr>)"
      by blast
  qed
qed

theorem signup_compensation_witness:
  "signup (rejecting_env None) signup_dto demo_db =
     (Inl (StoreError ''User already registered''),
      demo_db\<lparr>accounts := filter (\<lambda>a. acc_id a \<noteq> ''C'') (accounts demo_db)\<rparr>)
   \<and> filter (\<lambda>a. acc_id a \<noteq> ''C'') (accounts demo_db) = accounts demo_db
   \<and> fst (signup (rejecting_env (Some (StoreError ''Connection lost''))) signup_dto demo_db) =
       Inl (StoreError ''Connection lost'')"
proof -
  have named: "\<not> (sd_role signup_dto = FOUNDER \<and>
                      (sd_accountName signup_dto = None \<or> sd_accountName signup_dto = Some []))"
    by (simp add: signup_dto_def)
  have unused: "\<forall>u\<in>set (users demo_db). u_email u \<noteq> sd_email signup_dto"
    by (simp add: demo_db_def signup_dto_def)
  have failure: "se_signUp (rejecting_env c) (sd_email signup_dto) (sd_password signup_dto)
        (sd_role signup_dto) (se_newAccountId (rejecting_env c))
       = Inl (StoreError ''User already registered'')
     \<or> (\<exists>sid. se_signUp (rejecting_env c) (sd_email signup_dto) (sd_password signup_dto)
        (sd_role signup_dto) (se_newAccountId (rejecting_env c)) = Inr sid \<and>
        se_userCreate (rejecting_env c) = Some (StoreError ''User already registered''))" for c
    by (simp add: rejecting_env_def)
  have clean: "se_accountDelete (rejecting_env None) = None"
    by (simp add: rejecting_env_def)
  have dirty: "se_accountDelete (rejecting_env (Some (StoreError ''Connection lost''))) =
      Some (StoreError ''Connection lost'')"
    by (simp add: rejecting_env_def)
  have newid: "se_newAccountId (rejecting_env c) = ''C''" for c
    by (simp add: rejecting_env_def)
  have same: "filter (\<lambda>a. acc_id a \<noteq> ''C'') (accounts demo_db) = accounts demo_db"
    by (simp add: demo_db_def)
  have kept: "signup (rejecting_env None) signup_dto demo_db =
     (Inl (StoreError ''User already registered''),
      demo_db\<lparr>accounts := filter (\<lambda>a. acc_id a \<noteq> ''C'') (accounts demo_db)\<rparr>)"
    using signup_compensation [OF named unused failure [of None], THEN conjunct1] clean
    unfolding newid by blast
  have lost: "fst (signup (rejecting_env (Some (StoreError ''Connection lost''))) signup_dto demo_db) =
       Inl (StoreError ''Connection lost'')"
    using signup_compensation [OF named unused failure [of "Some (StoreError ''Connection lost'')"],
            THEN conjunct2, rule_format, OF dirty]
    by auto
  from kept same lost show ?thesis by blast
qed

subsection \<open>Adding a project member\<close>

text \<open>
  C10. Called by a FOUNDER on a project of the caller's tenant, \<open>addMember\<close> inserts the
  membership row (projectId, userId) for whatever user id it is given: the user table is
  not read, so the user may belong to another tenant or to none. (The constraints the
  store itself may put on the membership table are in the schema, which is not at hand.)
\<close>

theorem addMember_any_user:
  assumes "role context = FOUNDER"
      and "\<exists>p\<in>set (projects s). br_id p = projectId \<and> br_accountId p = tenantId context"
  shows "addMember context projectId uid s =
           (Inr (), s\<lparr>projectMembers :=
                        projectMembers s @ [\<lparr>pm_projectId = projectId, pm_userId = uid\<rparr>]\<rparr>)"
proof -
  from assms(2) obtain p where
    "find (\<lambda>p. br_id p = projectId \<and> buildTenantWhere context p) (projects s) = Some p"
    using find_Some_set [of "projects s" "\<lambda>p. br_id p = projectId \<and> buildTenantWhere context p"]
    by (auto simp: buildTenantWhere_def)
  with assms(1) show ?thesis
    by (simp add: addMember_def)
qed

theorem addMember_any_user_witness:
  "map u_accountId (filter (\<lambda>u. u_id u = ''uB2'') (users demo_db)) = [''B'']
   \<and> addMember founderA ''pA1'' ''uB2'' demo_db =
       (Inr (), demo_db\<lparr>projectMembers :=
                  projectMembers demo_db @ [\<lparr>pm_projectId = ''pA1'', pm_userId = ''uB2''\<rparr>]\<rparr>)
   \<and> filter (\<lambda>u. u_id u = ''nobody'') (users demo_db) = []
   \<and> addMember founderA ''pA1'' ''nobody'' demo_db =
       (Inr (), demo_db\<lparr>projectMembers :=
                  projectMembers demo_db @ [\<lparr>pm_projectId = ''pA1'', pm_userId = ''nobody''\<rparr>]\<rparr>)"
proof -
  have founder: "role founderA = FOUNDER"
    by (simp add: founderA_def)
  have owned: "\<exists>p\<in>set (projects demo_db). br_id p = ''pA1'' \<and> br_accountId p = tenantId founderA"
    by (simp add: demo_db_def founderA_def projectA1_def)
  have other: "map u_accountId (filter (\<lambda>u. u_id u = ''uB2'') (users demo_db)) = [''B'']"
    by (simp add: demo_db_def)
  have nobody: "filter (\<lambda>u. u_id u = ''nobody'') (users demo_db) = []"
    by (simp add: demo_db_def)
  show ?thesis
    using addMember_any_user [OF founder owned, of "''uB2''"]
          addMember_any_user [OF founder owned, of "''nobody''"] other nobody
    by blast
qed

end
